theory Spec2Isabelle
  imports Complex_Main "HOL-Library.Word"
begin

unbundle bit_operations_syntax

section \<open>Values shared by the whole module\<close>

text \<open>
  The module is Python.  Its integers are unbounded and are modelled by \<open>int\<close>.  Values of
  \<open>decimal.Decimal\<close> and the floats attached to the compass members are modelled by exact
  \<open>real\<close> numbers: the rounding of the decimal context to 28 significant digits is not
  part of the model, so a modelled result is the result of the code whenever no intermediate
  value needs more than 28 significant digits (or, for a value that is quantized to one
  decimal afterwards, whenever the exact value is not within \<open>10\<^sup>-\<^sup>2\<^sup>0\<close> of a rounding
  boundary).  Every exception the code can raise is a constructor of \<open>error\<close>.
\<close>

datatype error =
    StructError
  | AssertionError
  | ValueError
  | KeyError
  | InvalidOperation
  | OverflowError
  | IndexError
  | TypeError

text \<open>\<open>int(x)\<close> on a number: truncation towards zero.\<close>

definition py_int :: "real \<Rightarrow> int" where
  "py_int x = (if 0 \<le> x then \<lfloor>x\<rfloor> else \<lceil>x\<rceil>)"

definition DASH_LARGE :: int where "DASH_LARGE = 32767"
definition DASH_LARGE_NEGATIVE :: int where "DASH_LARGE_NEGATIVE = - 32768"
definition DASH_ZERO :: int where "DASH_ZERO = 0"
definition DASH_SMALL :: int where "DASH_SMALL = 255"

section \<open>Calendar values\<close>

text \<open>
  \<open>datetime.datetime\<close> with the fields the module reads.  The constructor raises
  \<open>ValueError\<close> outside the proleptic Gregorian calendar of years 1 to 9999.
\<close>

record datetime =
  year :: int
  month :: int
  day :: int
  hour :: int
  minute :: int
  second :: int
  microsecond :: int

definition is_leap :: "int \<Rightarrow> bool" where
  "is_leap y = (y mod 4 = 0 \<and> (y mod 100 \<noteq> 0 \<or> y mod 400 = 0))"

definition days_in_month :: "int \<Rightarrow> int \<Rightarrow> int" where
  "days_in_month y m =
     (if m = 2 then (if is_leap y then 29 else 28)
      else if m = 4 \<or> m = 6 \<or> m = 9 \<or> m = 11 then 30 else 31)"

definition date_fields_ok :: "int \<Rightarrow> int \<Rightarrow> int \<Rightarrow> bool" where
  "date_fields_ok y m d =
     (1 \<le> y \<and> y \<le> 9999 \<and> 1 \<le> m \<and> m \<le> 12 \<and> 1 \<le> d \<and> d \<le> days_in_month y m)"

definition datetime_new :: "int \<Rightarrow> int \<Rightarrow> int \<Rightarrow> int \<Rightarrow> int \<Rightarrow> error + datetime" where
  "datetime_new y m d h mi =
     (if date_fields_ok y m d \<and> 0 \<le> h \<and> h \<le> 23 \<and> 0 \<le> mi \<and> mi \<le> 59
      then Inr \<lparr>year = y, month = m, day = d, hour = h, minute = mi,
                second = 0, microsecond = 0\<rparr>
      else Inl ValueError)"

section \<open>Timestamp codec\<close>

text \<open>
  \<open>convert_datetime_to_timestamp\<close> packs a \<open>datetime\<close> and hands every other argument
  back unchanged.  \<open>convert_timestamp_to_datetime\<close> divides with \<open>/\<close> and truncates with
  \<open>int\<close>; the quotients by 512 and 32 are exact in binary floating point and the quotient
  by 100 of the magnitudes that occur is never rounded across an integer, so the exact
  quotient is used here.
\<close>

datatype timestamp_arg = Datetime datetime | NotDatetime int

definition convert_datetime_to_timestamp :: "timestamp_arg \<Rightarrow> int" where
  "convert_datetime_to_timestamp d =
     (case d of
        Datetime dt \<Rightarrow>
          push_bit 16 (day dt + (month dt * 32) + ((year dt - 2000) * 512))
            + (minute dt + (hour dt * 100))
      | NotDatetime other \<Rightarrow> other)"

definition convert_timestamp_to_datetime :: "int \<Rightarrow> error + datetime" where
  "convert_timestamp_to_datetime timestamp =
     (let date_part = drop_bit 16 timestamp;
          time_part = timestamp - push_bit 16 date_part;
          y = py_int ((of_int date_part / 512) + 2000);
          m = py_int (of_int (date_part - ((y - 2000) * 512)) / 32);
          d = date_part - ((y - 2000) * 512) - (m * 32);
          h = py_int (of_int time_part / 100);
          mi = time_part - (h * 100)
      in datetime_new y m d h mi)"

text \<open>
  A date-time is representable in the packed format when it is a calendar value of year 2000
  or later with no seconds and no microseconds (the format has no room for them).
\<close>

definition representable :: "datetime \<Rightarrow> bool" where
  "representable dt =
     (2000 \<le> year dt \<and> date_fields_ok (year dt) (month dt) (day dt)
      \<and> 0 \<le> hour dt \<and> hour dt \<le> 23 \<and> 0 \<le> minute dt \<and> minute dt \<le> 59
      \<and> second dt = 0 \<and> microsecond dt = 0)"

section \<open>Enumerations\<close>

datatype BarometricTrend =
  falling_rapidly | falling_slowly | steady | rising_slowly | rising_rapidly

text \<open>Calling the enumeration class on a value: the member with that value, or \<open>ValueError\<close>.\<close>

definition BarometricTrend_call :: "int \<Rightarrow> error + BarometricTrend" where
  "BarometricTrend_call v =
     (if v = - 60 then Inr falling_rapidly
      else if v = - 20 then Inr falling_slowly
      else if v = 0 then Inr steady
      else if v = 20 then Inr rising_slowly
      else if v = 60 then Inr rising_rapidly
      else Inl ValueError)"

datatype WindDirection =
  NS | N | NNE | NE | ENE | E | ESE | SE | SSE | S | SSW | SW | WSW | W | WNW | NW | NNW

fun WindDirection_value :: "WindDirection \<Rightarrow> int" where
  "WindDirection_value NS = - 1"
| "WindDirection_value N = 0"
| "WindDirection_value NNE = 1"
| "WindDirection_value NE = 2"
| "WindDirection_value ENE = 3"
| "WindDirection_value E = 4"
| "WindDirection_value ESE = 5"
| "WindDirection_value SE = 6"
| "WindDirection_value SSE = 7"
| "WindDirection_value S = 8"
| "WindDirection_value SSW = 9"
| "WindDirection_value SW = 10"
| "WindDirection_value WSW = 11"
| "WindDirection_value W = 12"
| "WindDirection_value WNW = 13"
| "WindDirection_value NW = 14"
| "WindDirection_value NNW = 15"

definition WindDirection_members :: "WindDirection list" where
  "WindDirection_members =
     [NS, N, NNE, NE, ENE, E, ESE, SE, SSE, S, SSW, SW, WSW, W, WNW, NW, NNW]"

definition WindDirection_call :: "int \<Rightarrow> error + WindDirection" where
  "WindDirection_call v =
     (case find (\<lambda>m. WindDirection_value m = v) WindDirection_members of
        Some m \<Rightarrow> Inr m
      | None \<Rightarrow> Inl ValueError)"

text \<open>The attribute \<open>degrees\<close> that \<open>__init__\<close> attaches to each member.\<close>

definition degrees :: "WindDirection \<Rightarrow> real" where
  "degrees m =
     (let d = of_int (WindDirection_value m) * 22.5
      in if d = 0.0 then 360.0 else d)"

text \<open>
  The reverse table is a dictionary literal with one entry for each whole degree from 1 to
  360; its entries are listed here run by run, in the order of the source.
\<close>

definition run :: "int \<Rightarrow> int \<Rightarrow> WindDirection \<Rightarrow> (int \<times> WindDirection) list" where
  "run lo hi m = map (\<lambda>d. (d, m)) [lo..hi]"

definition FROM_DEGREE_MAP :: "(int \<times> WindDirection) list" where
  "FROM_DEGREE_MAP =
     run 350 360 N @ run 1 11 N @
     run 12 34 NNE @
     run 35 56 NE @
     run 57 79 ENE @
     run 80 101 E @
     run 102 124 ESE @
     run 125 146 SE @
     run 147 169 SSE @
     run 170 191 S @
     run 192 214 SSW @
     run 215 236 SW @
     run 237 259 WSW @
     run 260 281 W @
     run 282 304 WNW @
     run 305 326 NW @
     run 327 349 NNW"

text \<open>
  Subscripting a dictionary with integer keys by a number: a number equal to a key finds it
  (\<open>90.0\<close> finds \<open>90\<close>), every other number raises \<open>KeyError\<close>.
\<close>

definition dict_get :: "(int \<times> 'v) list \<Rightarrow> real \<Rightarrow> error + 'v" where
  "dict_get table k =
     (if k = of_int \<lfloor>k\<rfloor>
      then (case map_of table \<lfloor>k\<rfloor> of Some v \<Rightarrow> Inr v | None \<Rightarrow> Inl KeyError)
      else Inl KeyError)"

definition from_degrees :: "real \<Rightarrow> error + WindDirection option" where
  "from_degrees dg =
     (if dg < 1 \<or> dg > 360 then Inr None
      else (case dict_get FROM_DEGREE_MAP dg of
              Inl e \<Rightarrow> Inl e
            | Inr m \<Rightarrow> Inr (Some m)))"

section \<open>Checksum\<close>

text \<open>
  \<open>calculate_weatherlink_crc\<close> folds the bytes of a \<open>bytes\<close> value (on a text string it
  folds the code of each character instead).  The subscript of the table is always one of
  its 256 positions (lemma \<open>table_index_range\<close> below), so the subscript never raises.
\<close>

type_synonym byte = "8 word"

definition WEATHERLINK_CRC_TABLE :: "int list" where
  "WEATHERLINK_CRC_TABLE = [
      0x0, 0x1021, 0x2042, 0x3063, 0x4084, 0x50a5, 0x60c6, 0x70e7,
      0x8108, 0x9129, 0xa14a, 0xb16b, 0xc18c, 0xd1ad, 0xe1ce, 0xf1ef,
      0x1231, 0x210, 0x3273, 0x2252, 0x52b5, 0x4294, 0x72f7, 0x62d6,
      0x9339, 0x8318, 0xb37b, 0xa35a, 0xd3bd, 0xc39c, 0xf3ff, 0xe3de,
      0x2462, 0x3443, 0x420, 0x1401, 0x64e6, 0x74c7, 0x44a4, 0x5485,
      0xa56a, 0xb54b, 0x8528, 0x9509, 0xe5ee, 0xf5cf, 0xc5ac, 0xd58d,
      0x3653, 0x2672, 0x1611, 0x630, 0x76d7, 0x66f6, 0x5695, 0x46b4,
      0xb75b, 0xa77a, 0x9719, 0x8738, 0xf7df, 0xe7fe, 0xd79d, 0xc7bc,
      0x48c4, 0x58e5, 0x6886, 0x78a7, 0x840, 0x1861, 0x2802, 0x3823,
      0xc9cc, 0xd9ed, 0xe98e, 0xf9af, 0x8948, 0x9969, 0xa90a, 0xb92b,
      0x5af5, 0x4ad4, 0x7ab7, 0x6a96, 0x1a71, 0xa50, 0x3a33, 0x2a12,
      0xdbfd, 0xcbdc, 0xfbbf, 0xeb9e, 0x9b79, 0x8b58, 0xbb3b, 0xab1a,
      0x6ca6, 0x7c87, 0x4ce4, 0x5cc5, 0x2c22, 0x3c03, 0xc60, 0x1c41,
      0xedae, 0xfd8f, 0xcdec, 0xddcd, 0xad2a, 0xbd0b, 0x8d68, 0x9d49,
      0x7e97, 0x6eb6, 0x5ed5, 0x4ef4, 0x3e13, 0x2e32, 0x1e51, 0xe70,
      0xff9f, 0xefbe, 0xdfdd, 0xcffc, 0xbf1b, 0xaf3a, 0x9f59, 0x8f78,
      0x9188, 0x81a9, 0xb1ca, 0xa1eb, 0xd10c, 0xc12d, 0xf14e, 0xe16f,
      0x1080, 0xa1, 0x30c2, 0x20e3, 0x5004, 0x4025, 0x7046, 0x6067,
      0x83b9, 0x9398, 0xa3fb, 0xb3da, 0xc33d, 0xd31c, 0xe37f, 0xf35e,
      0x2b1, 0x1290, 0x22f3, 0x32d2, 0x4235, 0x5214, 0x6277, 0x7256,
      0xb5ea, 0xa5cb, 0x95a8, 0x8589, 0xf56e, 0xe54f, 0xd52c, 0xc50d,
      0x34e2, 0x24c3, 0x14a0, 0x481, 0x7466, 0x6447, 0x5424, 0x4405,
      0xa7db, 0xb7fa, 0x8799, 0x97b8, 0xe75f, 0xf77e, 0xc71d, 0xd73c,
      0x26d3, 0x36f2, 0x691, 0x16b0, 0x6657, 0x7676, 0x4615, 0x5634,
      0xd94c, 0xc96d, 0xf90e, 0xe92f, 0x99c8, 0x89e9, 0xb98a, 0xa9ab,
      0x5844, 0x4865, 0x7806, 0x6827, 0x18c0, 0x8e1, 0x3882, 0x28a3,
      0xcb7d, 0xdb5c, 0xeb3f, 0xfb1e, 0x8bf9, 0x9bd8, 0xabbb, 0xbb9a,
      0x4a75, 0x5a54, 0x6a37, 0x7a16, 0xaf1, 0x1ad0, 0x2ab3, 0x3a92,
      0xfd2e, 0xed0f, 0xdd6c, 0xcd4d, 0xbdaa, 0xad8b, 0x9de8, 0x8dc9,
      0x7c26, 0x6c07, 0x5c64, 0x4c45, 0x3ca2, 0x2c83, 0x1ce0, 0xcc1,
      0xef1f, 0xff3e, 0xcf5d, 0xdf7c, 0xaf9b, 0xbfba, 0x8fd9, 0x9ff8,
      0x6e17, 0x7e36, 0x4e55, 0x5e74, 0x2e93, 0x3eb2, 0xed1, 0x1ef0]"

definition crc_update :: "int \<Rightarrow> byte \<Rightarrow> int" where
  "crc_update crc byte =
     (WEATHERLINK_CRC_TABLE ! nat ((drop_bit 8 crc AND 0xFF) XOR uint byte))
       XOR (push_bit 8 crc AND 0xFF00)"

definition calculate_weatherlink_crc :: "byte list \<Rightarrow> int" where
  "calculate_weatherlink_crc data_bytes = foldl crc_update 0 data_bytes"

text \<open>The subscript computed in \<open>crc_update\<close>, named for the proofs.\<close>

definition table_index :: "int \<Rightarrow> byte \<Rightarrow> int" where
  "table_index crc byte = (drop_bit 8 crc AND 0xFF) XOR uint byte"

section \<open>Derived metrics\<close>

text \<open>
  The numeric arguments of these functions are integers or decimals; an argument that is
  passed through \<open>_as_decimal\<close> may also be \<open>None\<close>, which counts as 0.
\<close>

definition as_decimal :: "real option \<Rightarrow> real" where
  "as_decimal v = (case v of None \<Rightarrow> 0 | Some x \<Rightarrow> x)"

definition ZERO :: real where "ZERO = 0"
definition TWO :: real where "TWO = 2"
definition FOUR :: real where "FOUR = 4"
definition FIVE :: real where "FIVE = 5"
definition TEN :: real where "TEN = 10"

definition HI_SECOND_FORMULA_THRESHOLD :: real where "HI_SECOND_FORMULA_THRESHOLD = 80.0"
definition HI_0_094 :: real where "HI_0_094 = 0.094"
definition HI_0_5 :: real where "HI_0_5 = 0.5"
definition HI_1_2 :: real where "HI_1_2 = 1.2"
definition HI_61_0 :: real where "HI_61_0 = 61.0"
definition HI_68_0 :: real where "HI_68_0 = 68.0"
definition HI_C1 :: real where "HI_C1 = - 42.379"
definition HI_C2 :: real where "HI_C2 = 2.04901523"
definition HI_C3 :: real where "HI_C3 = 10.14333127"
definition HI_C4 :: real where "HI_C4 = - 0.22475541"
definition HI_C5 :: real where "HI_C5 = - 0.00683783"
definition HI_C6 :: real where "HI_C6 = - 0.05481717"
definition HI_C7 :: real where "HI_C7 = 0.00122874"
definition HI_C8 :: real where "HI_C8 = 0.00085282"
definition HI_C9 :: real where "HI_C9 = - 0.00000199"
definition HI_FIRST_ADJUSTMENT_THRESHOLD :: "real \<times> real \<times> real" where
  "HI_FIRST_ADJUSTMENT_THRESHOLD = (80.0, 112.0, 13.0)"
definition HI_13 :: real where "HI_13 = 13"
definition HI_17 :: real where "HI_17 = 17"
definition HI_95 :: real where "HI_95 = 95"
definition HI_SECOND_ADJUSTMENT_THRESHOLD :: "real \<times> real \<times> real" where
  "HI_SECOND_ADJUSTMENT_THRESHOLD = (80.0, 87.0, 85.0)"
definition HI_85 :: real where "HI_85 = 85"
definition HI_87 :: real where "HI_87 = 87"

definition WC_C1 :: real where "WC_C1 = 35.74"
definition WC_C2 :: real where "WC_C2 = 0.6215"
definition WC_C3 :: real where "WC_C3 = 35.75"
definition WC_C4 :: real where "WC_C4 = 0.4275"
definition WC_V_EXP :: real where "WC_V_EXP = 0.16"

definition HEAT_INDEX_THRESHOLD :: real where "HEAT_INDEX_THRESHOLD = 70.0"
definition WIND_CHILL_THRESHOLD :: real where "WIND_CHILL_THRESHOLD = 40.0"

text \<open>
  \<open>x.quantize(ONE_TENTH, rounding=ROUND_CEILING)\<close> and the same with \<open>ROUND_FLOOR\<close>: the
  nearest multiple of one tenth above, respectively below.
\<close>

definition quantize_tenth_ceiling :: "real \<Rightarrow> real" where
  "quantize_tenth_ceiling x = of_int \<lceil>x * 10\<rceil> / 10"

definition quantize_tenth_floor :: "real \<Rightarrow> real" where
  "quantize_tenth_floor x = of_int \<lfloor>x * 10\<rfloor> / 10"

definition abs_max :: "real \<Rightarrow> real" where
  "abs_max d = max d (- d)"

text \<open>
  In the first adjustment the argument of the square root is \<open>(17 - |T - 95|) / 17\<close> with
  \<open>80 \<le> T \<le> 112\<close>, which is never negative, so the square root never raises.
\<close>

definition calculate_heat_index :: "real \<Rightarrow> real option \<Rightarrow> real option" where
  "calculate_heat_index temperature relative_humidity =
     (if temperature < HEAT_INDEX_THRESHOLD then None
      else
        let T = temperature;
            RH = as_decimal relative_humidity;
            heat_index = HI_0_5 * (T + HI_61_0 + ((T - HI_68_0) * HI_1_2) + (RH * HI_0_094));
            heat_index = (heat_index + T) / TWO
        in if heat_index < HI_SECOND_FORMULA_THRESHOLD
           then Some (quantize_tenth_ceiling heat_index)
           else
             let heat_index =
                   HI_C1 + (HI_C2 * T) + (HI_C3 * RH) + (HI_C4 * T * RH) + (HI_C5 * T * T) +
                   (HI_C6 * RH * RH) + (HI_C7 * T * T * RH) + (HI_C8 * T * RH * RH) +
                   (HI_C9 * T * T * RH * RH);
                 heat_index =
                   (if fst HI_FIRST_ADJUSTMENT_THRESHOLD \<le> T
                       \<and> T \<le> fst (snd HI_FIRST_ADJUSTMENT_THRESHOLD)
                       \<and> RH < snd (snd HI_FIRST_ADJUSTMENT_THRESHOLD)
                    then heat_index -
                           ((HI_13 - RH) / FOUR) * sqrt ((HI_17 - abs_max (T - HI_95)) / HI_17)
                    else if fst HI_SECOND_ADJUSTMENT_THRESHOLD \<le> T
                       \<and> T \<le> fst (snd HI_SECOND_ADJUSTMENT_THRESHOLD)
                       \<and> RH > snd (snd HI_SECOND_ADJUSTMENT_THRESHOLD)
                    then heat_index + ((RH - HI_85) / TEN) * ((HI_87 - T) / FIVE)
                    else heat_index)
             in Some (quantize_tenth_ceiling heat_index))"

text \<open>
  The three values that \<open>calculate_heat_index\<close> computes before it rounds, named for the
  statements and written with the numbers of the NOAA formulas: the average of the simple
  formula and the temperature, the regression, and the correction that is added to the
  regression at low and at high humidity.
\<close>

definition heat_index_simple_average :: "real \<Rightarrow> real \<Rightarrow> real" where
  "heat_index_simple_average T RH =
     (0.5 * (T + 61.0 + ((T - 68.0) * 1.2) + (RH * 0.094)) + T) / 2"

definition heat_index_regression :: "real \<Rightarrow> real \<Rightarrow> real" where
  "heat_index_regression T RH =
     - 42.379 + 2.04901523 * T + 10.14333127 * RH - 0.22475541 * T * RH
     - 0.00683783 * T * T - 0.05481717 * RH * RH + 0.00122874 * T * T * RH
     + 0.00085282 * T * RH * RH - 0.00000199 * T * T * RH * RH"

definition heat_index_correction :: "real \<Rightarrow> real \<Rightarrow> real" where
  "heat_index_correction T RH =
     (if 80 \<le> T \<and> T \<le> 112 \<and> RH < 13
      then - (((13 - RH) / 4) * sqrt ((17 - \<bar>T - 95\<bar>) / 17))
      else if 80 \<le> T \<and> T \<le> 87 \<and> 85 < RH
      then ((RH - 85) / 10) * ((87 - T) / 5)
      else 0)"

text \<open>
  \<open>WS ** WC_V_EXP\<close> on decimals: a negative base with the fractional exponent raises
  \<open>InvalidOperation\<close>, every other base gives the real power.
\<close>

definition decimal_power :: "real \<Rightarrow> real \<Rightarrow> error + real" where
  "decimal_power x y = (if x < 0 then Inl InvalidOperation else Inr (x powr y))"

definition calculate_wind_chill :: "real \<Rightarrow> real option \<Rightarrow> error + real option" where
  "calculate_wind_chill temperature wind_speed =
     (if temperature > WIND_CHILL_THRESHOLD then Inr None
      else
        let T = temperature;
            WS = as_decimal wind_speed
        in if WS = ZERO then Inr (Some T)
           else
             (case decimal_power WS WC_V_EXP of
                Inl e \<Rightarrow> Inl e
              | Inr V \<Rightarrow>
                  let wind_chill =
                        quantize_tenth_floor (WC_C1 + (WC_C2 * T) - (WC_C3 * V) + (WC_C4 * T * V))
                  in Inr (Some (if wind_chill > T then T else wind_chill))))"

text \<open>The unrounded regression of \<open>calculate_wind_chill\<close>, named for the statements.\<close>

definition wind_chill_regression :: "real \<Rightarrow> real \<Rightarrow> real" where
  "wind_chill_regression T WS =
     WC_C1 + (WC_C2 * T) - (WC_C3 * (WS powr WC_V_EXP)) + (WC_C4 * T * (WS powr WC_V_EXP))"

section \<open>Rolling ten-minute wind average\<close>

text \<open>
  A wind sample is the tuple \<open>(wind_speed, wind_direction, timestamp_station,
  minutes_covered)\<close>.  The wind speed goes through \<open>_as_decimal\<close>, the direction is any
  hashable value, \<open>minutes_covered\<close> is a number that \<open>int\<close> truncates.  The function only
  subtracts whole minutes from the timestamps and hands them back, so a timestamp is
  modelled by its position on the time line, counted in minutes; the two ends of the range
  of \<open>datetime\<close> (years 1 and 9999) are not modelled.
\<close>

type_synonym 'd wind_sample = "real option \<times> 'd \<times> int \<times> real"

text \<open>\<open>collections.deque(maxlen=10)\<close>: \<open>extend\<close> appends on the right and drops on the left.\<close>

definition deque_extend :: "'a list \<Rightarrow> 'a list \<Rightarrow> 'a list" where
  "deque_extend q xs = (let r = q @ xs in drop (length r - 10) r)"

record 'd wind_state =
  speed_queue :: "real list"
  direction_queue :: "'d list"
  timestamp_queue :: "int list"
  current_max :: real
  current_direction_list :: "'d list"
  current_timestamp_list :: "int list"

definition initial_wind_state :: "'d wind_state" where
  "initial_wind_state =
     \<lparr>speed_queue = [], direction_queue = [], timestamp_queue = [],
      current_max = ZERO, current_direction_list = [], current_timestamp_list = []\<rparr>"

text \<open>
  The body of the \<open>for\<close> loop; \<open>None\<close> is the early \<open>return None, None, None, None\<close> at a
  sample that covers more than 10 minutes.
\<close>

definition wind_step :: "'d wind_state \<Rightarrow> 'd wind_sample \<Rightarrow> 'd wind_state option" where
  "wind_step st sample =
     (case sample of (wind_speed, wind_speed_direction, timestamp_station, minutes_covered) \<Rightarrow>
        let minutes_covered = py_int minutes_covered
        in if minutes_covered > 10 then None
           else
             let wind_speed = as_decimal wind_speed;
                 sq = deque_extend (speed_queue st)
                        (replicate (nat minutes_covered) wind_speed);
                 dq = deque_extend (direction_queue st)
                        (replicate (nat minutes_covered) wind_speed_direction);
                 tq = (if minutes_covered = 1
                       then deque_extend (timestamp_queue st) [timestamp_station]
                       else deque_extend (timestamp_queue st)
                              (map (\<lambda>i. timestamp_station - i)
                                 (rev [0..minutes_covered - 1])));
                 st = st\<lparr>speed_queue := sq, direction_queue := dq, timestamp_queue := tq\<rparr>
             in if length sq = 10
                then
                  let average = sum_list sq / 10
                  in if average > current_max st
                     then Some (st\<lparr>current_max := average,
                                    current_direction_list := dq,
                                    current_timestamp_list := tq\<rparr>)
                     else Some st
                else Some st)"

fun wind_loop :: "'d wind_state \<Rightarrow> 'd wind_sample list \<Rightarrow> 'd wind_state option" where
  "wind_loop st [] = Some st"
| "wind_loop st (sample # records) =
     (case wind_step st sample of
        None \<Rightarrow> None
      | Some st' \<Rightarrow> wind_loop st' records)"

text \<open>
  \<open>collections.Counter(xs).most_common()[0][0]\<close>: the value with the highest count, the
  one met first among equals.
\<close>

definition most_common_first :: "'d list \<Rightarrow> 'd" where
  "most_common_first xs =
     foldl (\<lambda>best x. if count_list xs best < count_list xs x then x else best) (hd xs) xs"

definition calculate_10_minute_wind_average ::
  "'d wind_sample list \<Rightarrow> real option \<times> 'd option \<times> int option \<times> int option" where
  "calculate_10_minute_wind_average records =
     (case wind_loop initial_wind_state records of
        None \<Rightarrow> (None, None, None, None)
      | Some st \<Rightarrow>
          if current_max st > ZERO
          then
            (Some (current_max st),
             (if current_direction_list st \<noteq> []
              then Some (most_common_first (current_direction_list st)) else None),
             (if current_timestamp_list st \<noteq> []
              then Some (hd (current_timestamp_list st)) else None),
             (if current_timestamp_list st \<noteq> []
              then Some (last (current_timestamp_list st)) else None))
          else (None, None, None, None))"

text \<open>
  The loop invariant of a calm period: the running maximum is still 0 and the window holds
  only zeros.
\<close>

definition calm :: "'d wind_state \<Rightarrow> bool" where
  "calm st = (current_max st = 0 \<and> (\<forall>x \<in> set (speed_queue st). x = 0))"

section \<open>Binary record codec\<close>

subsection \<open>Reading and unpacking\<close>

text \<open>
  A file handle (or socket file) opened for reading bytes is modelled by the bytes that are
  still to be read.  \<open>read(n)\<close> hands out at most \<open>n\<close> of them, fewer when the stream ends
  before, and leaves the rest.
\<close>

definition file_read :: "nat \<Rightarrow> byte list \<Rightarrow> byte list \<times> byte list" where
  "file_read n file_handle = (take n file_handle, drop n file_handle)"

text \<open>
  The format characters that the record layouts use: \<open>x\<close> (pad byte), \<open>b\<close> and \<open>B\<close> (signed
  and unsigned 8 bits), \<open>h\<close> and \<open>H\<close> (signed and unsigned 16 bits), \<open>s\<close> (a byte string of
  the given length) and \<open>c\<close> (one byte, as a byte string).  A repeat count as in \<open>2h\<close> is
  written \<open>replicate 2 short_h\<close>.  The layouts start with \<open>=\<close> or \<open><\<close>: standard sizes, no
  alignment; the byte order of \<open>=\<close> is the one of the host, taken to be little-endian as
  for \<open><\<close>.
\<close>

datatype format_char = pad_x | char_b | uchar_B | short_h | ushort_H | bytes_s nat | char_c

fun format_size :: "format_char \<Rightarrow> nat" where
  "format_size pad_x = 1"
| "format_size char_b = 1"
| "format_size uchar_B = 1"
| "format_size short_h = 2"
| "format_size ushort_H = 2"
| "format_size (bytes_s n) = n"
| "format_size char_c = 1"

definition calcsize :: "format_char list \<Rightarrow> nat" where
  "calcsize fmt = sum_list (map format_size fmt)"

text \<open>An unpacked value is an integer or a byte string.\<close>

datatype raw = RInt int | RBytes "byte list"

definition le_unsigned :: "byte list \<Rightarrow> int" where
  "le_unsigned bs = foldr (\<lambda>b acc. uint b + 256 * acc) bs 0"

definition le_signed :: "byte list \<Rightarrow> int" where
  "le_signed bs =
     (let u = le_unsigned bs; m = 2 ^ (8 * length bs)
      in if m \<le> 2 * u then u - m else u)"

fun unpack_fields :: "format_char list \<Rightarrow> byte list \<Rightarrow> raw list" where
  "unpack_fields [] buffer = []"
| "unpack_fields (pad_x # fmt) buffer = unpack_fields fmt (drop 1 buffer)"
| "unpack_fields (char_b # fmt) buffer =
     RInt (le_signed (take 1 buffer)) # unpack_fields fmt (drop 1 buffer)"
| "unpack_fields (uchar_B # fmt) buffer =
     RInt (le_unsigned (take 1 buffer)) # unpack_fields fmt (drop 1 buffer)"
| "unpack_fields (short_h # fmt) buffer =
     RInt (le_signed (take 2 buffer)) # unpack_fields fmt (drop 2 buffer)"
| "unpack_fields (ushort_H # fmt) buffer =
     RInt (le_unsigned (take 2 buffer)) # unpack_fields fmt (drop 2 buffer)"
| "unpack_fields (bytes_s n # fmt) buffer =
     RBytes (take n buffer) # unpack_fields fmt (drop n buffer)"
| "unpack_fields (char_c # fmt) buffer =
     RBytes (take 1 buffer) # unpack_fields fmt (drop 1 buffer)"

text \<open>
  \<open>struct.unpack_from(fmt, buffer)\<close> raises \<open>struct.error\<close> when the buffer holds fewer
  bytes than the format needs, and reads the front of a longer one.
\<close>

definition struct_unpack_from :: "format_char list \<Rightarrow> byte list \<Rightarrow> error + raw list" where
  "struct_unpack_from fmt buffer =
     (if length buffer < calcsize fmt then Inl StructError
      else Inr (unpack_fields fmt buffer))"

subsection \<open>Decoded values\<close>

datatype RainCollectorTypeSerial =
  Serial_inches_0_01 | Serial_millimeters_0_2 | Serial_millimeters_0_1

datatype RainCollectorTypeDatabase =
    Database_inches_0_1
  | Database_inches_0_01
  | Database_millimeters_0_2
  | Database_millimeters_1_0
  | Database_millimeters_0_1

text \<open>
  The values that end up in a record: \<open>None\<close>, integers, decimals, the floats of the compass
  degrees, booleans, members of the enumerations, dates and date-times.
\<close>

datatype pyval =
    PyNone
  | PyInt int
  | PyDecimal real
  | PyFloat real
  | PyBool bool
  | PyWindDirection WindDirection
  | PyBarometricTrend BarometricTrend
  | PyRainCollectorTypeSerial RainCollectorTypeSerial
  | PyRainCollectorTypeDatabase RainCollectorTypeDatabase
  | PyDate int int int
  | PyDatetime datetime

text \<open>The truth value of \<open>if value:\<close>; members of an enumeration are always true.\<close>

fun truthy :: "pyval \<Rightarrow> bool" where
  "truthy PyNone = False"
| "truthy (PyInt n) = (n \<noteq> 0)"
| "truthy (PyDecimal x) = (x \<noteq> 0)"
| "truthy (PyFloat x) = (x \<noteq> 0)"
| "truthy (PyBool b) = b"
| "truthy _ = True"

text \<open>\<open>RecordDict\<close> is a dictionary from attribute names to values.\<close>

type_synonym RecordDict = "string \<Rightarrow> pyval option"

definition TENTHS_factor :: real where "TENTHS_factor = 0.1"
definition HUNDREDTHS_factor :: real where "HUNDREDTHS_factor = 0.01"
definition THOUSANDTHS_factor :: real where "THOUSANDTHS_factor = 0.001"
definition INCHES_PER_CENTIMETER :: real where "INCHES_PER_CENTIMETER = 0.393701"

text \<open>
  The transforms of the attribute maps.  They are only ever applied to integers: in the one
  layout that has byte strings, these are verification fields and are skipped by the loop.
\<close>

type_synonym transform = "raw \<Rightarrow> error + pyval"

definition STRAIGHT_NUMBER :: transform where
  "STRAIGHT_NUMBER v = (case v of RInt n \<Rightarrow> Inr (PyInt n) | RBytes b \<Rightarrow> Inl ValueError)"

definition STRAIGHT_DECIMAL :: transform where
  "STRAIGHT_DECIMAL v =
     (case v of RInt n \<Rightarrow> Inr (PyDecimal (of_int n)) | RBytes b \<Rightarrow> Inl TypeError)"

definition TENTHS :: transform where
  "TENTHS v =
     (case v of RInt n \<Rightarrow> Inr (PyDecimal (of_int n * TENTHS_factor))
      | RBytes b \<Rightarrow> Inl TypeError)"

definition HUNDREDTHS :: transform where
  "HUNDREDTHS v =
     (case v of RInt n \<Rightarrow> Inr (PyDecimal (of_int n * HUNDREDTHS_factor))
      | RBytes b \<Rightarrow> Inl TypeError)"

definition THOUSANDTHS :: transform where
  "THOUSANDTHS v =
     (case v of RInt n \<Rightarrow> Inr (PyDecimal (of_int n * THOUSANDTHS_factor))
      | RBytes b \<Rightarrow> Inl TypeError)"

text \<open>The enumeration class \<open>WindDirection\<close> used as a transform: lookup by value.\<close>

definition WindDirection_lookup :: transform where
  "WindDirection_lookup v =
     (case v of
        RInt n \<Rightarrow> (case WindDirection_call n of Inl e \<Rightarrow> Inl e | Inr m \<Rightarrow> Inr (PyWindDirection m))
      | RBytes b \<Rightarrow> Inl ValueError)"

definition RainCollectorTypeDatabase_call :: "int \<Rightarrow> error + RainCollectorTypeDatabase" where
  "RainCollectorTypeDatabase_call v =
     (if v = 0x0000 then Inr Database_inches_0_1
      else if v = 0x1000 then Inr Database_inches_0_01
      else if v = 0x2000 then Inr Database_millimeters_0_2
      else if v = 0x3000 then Inr Database_millimeters_1_0
      else if v = 0x6000 then Inr Database_millimeters_0_1
      else Inl ValueError)"

fun Database_clicks_to_inches :: "RainCollectorTypeDatabase \<Rightarrow> int \<Rightarrow> real" where
  "Database_clicks_to_inches Database_inches_0_1 c = TENTHS_factor * of_int c"
| "Database_clicks_to_inches Database_inches_0_01 c = HUNDREDTHS_factor * of_int c"
| "Database_clicks_to_inches Database_millimeters_0_2 c =
     HUNDREDTHS_factor * INCHES_PER_CENTIMETER * of_int c * 2"
| "Database_clicks_to_inches Database_millimeters_1_0 c =
     TENTHS_factor * INCHES_PER_CENTIMETER * of_int c"
| "Database_clicks_to_inches Database_millimeters_0_1 c =
     HUNDREDTHS_factor * INCHES_PER_CENTIMETER * of_int c"

fun Serial_clicks_to_inches :: "RainCollectorTypeSerial \<Rightarrow> int \<Rightarrow> real" where
  "Serial_clicks_to_inches Serial_inches_0_01 c = of_int c * HUNDREDTHS_factor"
| "Serial_clicks_to_inches Serial_millimeters_0_2 c =
     of_int c * HUNDREDTHS_factor * INCHES_PER_CENTIMETER * 2"
| "Serial_clicks_to_inches Serial_millimeters_0_1 c =
     of_int c * HUNDREDTHS_factor * INCHES_PER_CENTIMETER"

subsection \<open>The steps shared by the record kinds\<close>

text \<open>
  An entry of an attribute map is \<open>(name, transform, sentinel)\<close>; the sentinel is an integer
  or \<open>None\<close>, and no unpacked value equals \<open>None\<close>.
\<close>

type_synonym attribute = "string \<times> transform \<times> int option"

definition equals_sentinel :: "raw \<Rightarrow> int option \<Rightarrow> bool" where
  "equals_sentinel v sentinel = (case sentinel of None \<Rightarrow> False | Some n \<Rightarrow> v = RInt n)"

text \<open>
  The loop over a verification map: the first unpacked value that differs from the required
  one raises \<open>AssertionError\<close>.
\<close>

fun verify :: "(nat \<times> raw) list \<Rightarrow> raw list \<Rightarrow> error + unit" where
  "verify [] arguments = Inr ()"
| "verify ((k, v) # verification_map) arguments =
     (if length arguments \<le> k then Inl IndexError
      else if arguments ! k \<noteq> v then Inl AssertionError
      else verify verification_map arguments)"

text \<open>
  The loop \<open>for i, v in enumerate(arguments)\<close> that fills the keyword arguments.  \<open>wanted\<close>
  is the condition of the \<open>if\<close> on the index (not a verification field, not a field with
  special handling).
\<close>

fun attribute_loop ::
  "(nat \<Rightarrow> bool) \<Rightarrow> attribute list \<Rightarrow> (nat \<times> raw) list \<Rightarrow> RecordDict \<Rightarrow> error + RecordDict"
where
  "attribute_loop wanted attribute_map [] kwargs = Inr kwargs"
| "attribute_loop wanted attribute_map ((i, v) # rest) kwargs =
     (if wanted i
      then
        (if length attribute_map \<le> i then Inl IndexError
         else
           (case attribute_map ! i of
              (k, transform, sentinel) \<Rightarrow>
                if equals_sentinel v sentinel
                then attribute_loop wanted attribute_map rest (kwargs(k \<mapsto> PyNone))
                else
                  (case transform v of
                     Inl e \<Rightarrow> Inl e
                   | Inr x \<Rightarrow> attribute_loop wanted attribute_map rest (kwargs(k \<mapsto> x)))))
      else attribute_loop wanted attribute_map rest kwargs)"

text \<open>An unpacked value used as a number by the post-processing.\<close>

definition raw_int :: "raw \<Rightarrow> error + int" where
  "raw_int v = (case v of RInt n \<Rightarrow> Inr n | RBytes b \<Rightarrow> Inl TypeError)"

text \<open>
  \<open>for k1, k2 in RECORD_WIND_DIRECTION_SPECIAL\<close>: the degrees of a direction that is
  present.
\<close>

fun wind_direction_special ::
  "(string \<times> string) list \<Rightarrow> RecordDict \<Rightarrow> error + RecordDict" where
  "wind_direction_special [] record = Inr record"
| "wind_direction_special ((k1, k2) # rest) record =
     (case record k1 of
        None \<Rightarrow> Inl KeyError
      | Some v \<Rightarrow>
          if truthy v
          then (case v of
                  PyWindDirection m \<Rightarrow>
                    wind_direction_special rest (record(k2 \<mapsto> PyFloat (degrees m)))
                | _ \<Rightarrow> Inl TypeError)
          else wind_direction_special rest (record(k2 \<mapsto> PyNone)))"

text \<open>
  \<open>datetime.date(year, month, day)\<close>, and \<open>datetime + timedelta(minutes=n)\<close>, which steps
  over the calendar day by day and raises \<open>OverflowError\<close> when it leaves the years 1 to
  9999.
\<close>

definition date_new :: "int \<Rightarrow> int \<Rightarrow> int \<Rightarrow> error + pyval" where
  "date_new y m d = (if date_fields_ok y m d then Inr (PyDate y m d) else Inl ValueError)"

definition next_day :: "int \<times> int \<times> int \<Rightarrow> int \<times> int \<times> int" where
  "next_day ymd =
     (case ymd of (y, m, d) \<Rightarrow>
        if d < days_in_month y m then (y, m, d + 1)
        else if m < 12 then (y, m + 1, 1)
        else (y + 1, 1, 1))"

definition previous_day :: "int \<times> int \<times> int \<Rightarrow> int \<times> int \<times> int" where
  "previous_day ymd =
     (case ymd of (y, m, d) \<Rightarrow>
        if 1 < d then (y, m, d - 1)
        else if 1 < m then (y, m - 1, days_in_month y (m - 1))
        else (y - 1, 12, 31))"

definition shift_days :: "int \<Rightarrow> int \<times> int \<times> int \<Rightarrow> int \<times> int \<times> int" where
  "shift_days n ymd =
     (if 0 \<le> n then (next_day ^^ nat n) ymd else (previous_day ^^ nat (- n)) ymd)"

definition datetime_add_minutes :: "datetime \<Rightarrow> int \<Rightarrow> error + datetime" where
  "datetime_add_minutes dt n =
     (let total = hour dt * 60 + minute dt + n
      in case shift_days (total div 1440) (year dt, month dt, day dt) of
           (y, m, d) \<Rightarrow>
             if y < 1 \<or> 9999 < y then Inl OverflowError
             else Inr (dt\<lparr>year := y, month := m, day := d,
                          hour := (total mod 1440) div 60, minute := (total mod 1440) mod 60\<rparr>))"

subsection \<open>Daily summary\<close>

definition DAILY_SUMMARY_FORMAT :: "format_char list" where
  "DAILY_SUMMARY_FORMAT = concat [
     [char_b, pad_x],
     [short_h],
     replicate 2 short_h,
     replicate 2 short_h,
     [short_h],
     [short_h],
     replicate 2 short_h,
     replicate 2 short_h,
     [short_h],
     [short_h],
     replicate 2 short_h,
     replicate 2 short_h,
     [short_h],
     replicate 2 short_h,
     [short_h],
     [short_h],
     [short_h],
     [short_h],
     [short_h],
     [char_b],
     [char_b],
     [short_h],
     [short_h],
     replicate 2 pad_x,
     [pad_x],
     replicate 27 pad_x,
     [char_b, pad_x],
     replicate 2 pad_x,
     [short_h],
     replicate 8 pad_x,
     replicate 2 short_h,
     [short_h],
     replicate 4 pad_x,
     replicate 2 short_h,
     [short_h],
     replicate 2 short_h,
     [short_h],
     replicate 24 pad_x,
     replicate 15 pad_x,
     [short_h],
     replicate 11 pad_x]"

definition DAILY_SUMMARY_LENGTH :: nat where "DAILY_SUMMARY_LENGTH = 88 * 2"

definition DAILY_SUMMARY_VERIFICATION_MAP :: "(nat \<times> raw) list" where
  "DAILY_SUMMARY_VERIFICATION_MAP = [(0, RInt 2), (30, RInt 3)]"

definition DAILY_SUMMARY_ATTRIBUTE_MAP :: "attribute list" where
  "DAILY_SUMMARY_ATTRIBUTE_MAP = [
     (''ds1_version'', STRAIGHT_NUMBER, None),
     (''minutes'', STRAIGHT_NUMBER, None),
     (''temperature_outside_high'', TENTHS, Some DASH_LARGE_NEGATIVE),
     (''temperature_outside_low'', TENTHS, Some DASH_LARGE),
     (''temperature_inside_high'', TENTHS, Some DASH_LARGE_NEGATIVE),
     (''temperature_inside_low'', TENTHS, Some DASH_LARGE),
     (''temperature_outside_average'', TENTHS, Some DASH_LARGE),
     (''temperature_inside_average'', TENTHS, Some DASH_LARGE),
     (''wind_chill_high'', TENTHS, Some DASH_LARGE_NEGATIVE),
     (''wind_chill_low'', TENTHS, Some DASH_LARGE),
     (''dew_point_high'', TENTHS, Some DASH_LARGE_NEGATIVE),
     (''dew_point_low'', TENTHS, Some DASH_LARGE),
     (''wind_chill_average'', TENTHS, Some DASH_LARGE),
     (''dew_point_average'', TENTHS, Some DASH_LARGE),
     (''humidity_outside_high'', TENTHS, Some DASH_SMALL),
     (''humidity_outside_low'', TENTHS, Some DASH_SMALL),
     (''humidity_inside_high'', TENTHS, Some DASH_SMALL),
     (''humidity_inside_low'', TENTHS, Some DASH_SMALL),
     (''humidity_outside_average'', TENTHS, Some DASH_SMALL),
     (''barometric_pressure_high'', THOUSANDTHS, Some DASH_ZERO),
     (''barometric_pressure_low'', THOUSANDTHS, Some DASH_ZERO),
     (''barometric_pressure_average'', THOUSANDTHS, Some DASH_ZERO),
     (''wind_speed_high'', TENTHS, Some DASH_ZERO),
     (''wind_speed_average'', TENTHS, Some DASH_ZERO),
     (''wind_daily_run'', TENTHS, Some DASH_ZERO),
     (''wind_speed_high_10_minute_average'', TENTHS, Some DASH_LARGE_NEGATIVE),
     (''wind_speed_high_direction'', WindDirection_lookup, Some DASH_SMALL),
     (''wind_speed_high_10_minute_average_direction'', WindDirection_lookup, Some DASH_SMALL),
     (''rain_total'', THOUSANDTHS, None),
     (''rain_rate_high'', HUNDREDTHS, None),
     (''ds2_version'', STRAIGHT_NUMBER, None),
     (''total_wind_packets'', STRAIGHT_NUMBER, Some DASH_LARGE_NEGATIVE),
     (''heat_index_high'', TENTHS, Some DASH_LARGE_NEGATIVE),
     (''heat_index_low'', TENTHS, Some DASH_LARGE),
     (''heat_index_average'', TENTHS, Some DASH_LARGE),
     (''thw_index_high'', TENTHS, Some DASH_LARGE_NEGATIVE),
     (''thw_index_low'', TENTHS, Some DASH_LARGE),
     (''integrated_heating_degree_days'', TENTHS, Some DASH_ZERO),
     (''temperature_wet_bulb_high'', TENTHS, Some DASH_LARGE_NEGATIVE),
     (''temperature_wet_bulb_low'', TENTHS, Some DASH_LARGE),
     (''temperature_wet_bulb_average'', TENTHS, Some DASH_LARGE),
     (''integrated_cooling_degree_days'', TENTHS, Some DASH_ZERO)]"

text \<open>
  The condition of the loop on the index: \<open>i not in DAILY_SUMMARY_VERIFICATION_MAP\<close>.
\<close>

definition daily_summary_wanted :: "nat \<Rightarrow> bool" where
  "daily_summary_wanted i = (i \<notin> set (map fst DAILY_SUMMARY_VERIFICATION_MAP))"

text \<open>
  The part of \<open>DailySummary.load_from_wlk\<close> that works on the bytes that were read, and the
  class method itself, which also returns the handle as the read leaves it.
\<close>

definition DailySummary_from_bytes ::
  "byte list \<Rightarrow> int \<Rightarrow> int \<Rightarrow> int \<Rightarrow> error + RecordDict" where
  "DailySummary_from_bytes data y m d =
     (case struct_unpack_from DAILY_SUMMARY_FORMAT data of
        Inl e \<Rightarrow> Inl e
      | Inr arguments \<Rightarrow>
          (case verify DAILY_SUMMARY_VERIFICATION_MAP arguments of
             Inl e \<Rightarrow> Inl e
           | Inr u \<Rightarrow>
               (case attribute_loop daily_summary_wanted
                       DAILY_SUMMARY_ATTRIBUTE_MAP (enumerate 0 arguments) Map.empty of
                  Inl e \<Rightarrow> Inl e
                | Inr kwargs \<Rightarrow>
                    (case date_new y m d of
                       Inl e \<Rightarrow> Inl e
                     | Inr date \<Rightarrow> Inr (kwargs(''date'' \<mapsto> date))))))"

definition DailySummary_load_from_wlk ::
  "byte list \<Rightarrow> int \<Rightarrow> int \<Rightarrow> int \<Rightarrow> (error + RecordDict) \<times> byte list" where
  "DailySummary_load_from_wlk file_handle y m d =
     (case file_read DAILY_SUMMARY_LENGTH file_handle of
        (data, file_handle') \<Rightarrow> (DailySummary_from_bytes data y m d, file_handle'))"

subsection \<open>Archive interval record\<close>

definition RECORD_FORMAT_WLK :: "format_char list" where
  "RECORD_FORMAT_WLK = concat [
     [char_b],
     [char_b],
     replicate 2 pad_x,
     [short_h],
     [short_h],
     [short_h],
     [short_h],
     [short_h],
     [short_h],
     [short_h],
     [short_h],
     [ushort_H],
     [short_h],
     [short_h],
     [short_h],
     [char_b],
     [char_b],
     [short_h],
     [short_h],
     [short_h],
     [uchar_B],
     [uchar_B],
     replicate 50 pad_x]"

definition RECORD_FORMAT_DOWNLOAD :: "format_char list" where
  "RECORD_FORMAT_DOWNLOAD = concat [
     [short_h, short_h],
     [short_h],
     [short_h],
     [short_h],
     [ushort_H],
     [ushort_H],
     [ushort_H],
     [short_h],
     [ushort_H],
     [short_h],
     [uchar_B],
     [uchar_B],
     [uchar_B],
     [uchar_B],
     [uchar_B],
     [uchar_B],
     [uchar_B],
     [uchar_B],
     [short_h],
     [uchar_B],
     replicate 9 pad_x,
     [uchar_B],
     replicate 9 pad_x]"

definition RECORD_LENGTH_WLK :: nat where "RECORD_LENGTH_WLK = 88"
definition RECORD_LENGTH_DOWNLOAD :: nat where "RECORD_LENGTH_DOWNLOAD = 52"

definition RECORD_VERIFICATION_MAP_WLK :: "(nat \<times> raw) list" where
  "RECORD_VERIFICATION_MAP_WLK = [(0, RInt 1)]"

definition RECORD_VERIFICATION_MAP_DOWNLOAD :: "(nat \<times> raw) list" where
  "RECORD_VERIFICATION_MAP_DOWNLOAD = [(21, RInt 0)]"

definition RECORD_SPECIAL_HANDLING_WLK :: "nat set" where
  "RECORD_SPECIAL_HANDLING_WLK = {10, 11}"

definition RECORD_SPECIAL_HANDLING_DOWNLOAD :: "nat set" where
  "RECORD_SPECIAL_HANDLING_DOWNLOAD = {0, 1, 5, 6}"

definition RECORD_ATTRIBUTE_MAP_WLK :: "attribute list" where
  "RECORD_ATTRIBUTE_MAP_WLK = [
     (''record_version'', STRAIGHT_NUMBER, None),
     (''minutes_covered'', STRAIGHT_NUMBER, None),
     (''minutes_past_midnight'', STRAIGHT_NUMBER, None),
     (''temperature_outside'', TENTHS, Some DASH_LARGE),
     (''temperature_outside_high'', TENTHS, Some DASH_LARGE_NEGATIVE),
     (''temperature_outside_low'', TENTHS, Some DASH_LARGE),
     (''temperature_inside'', TENTHS, Some DASH_LARGE),
     (''barometric_pressure'', THOUSANDTHS, Some DASH_ZERO),
     (''humidity_outside'', TENTHS, Some DASH_SMALL),
     (''humidity_inside'', TENTHS, Some DASH_SMALL),
     (''__special'', STRAIGHT_NUMBER, None),
     (''__special'', STRAIGHT_NUMBER, None),
     (''wind_speed'', TENTHS, Some DASH_SMALL),
     (''wind_speed_high'', TENTHS, Some DASH_ZERO),
     (''wind_direction_prevailing'', WindDirection_lookup, Some DASH_SMALL),
     (''wind_direction_speed_high'', WindDirection_lookup, Some DASH_SMALL),
     (''number_of_wind_samples'', STRAIGHT_NUMBER, Some DASH_ZERO),
     (''solar_radiation'', STRAIGHT_NUMBER, Some DASH_LARGE_NEGATIVE),
     (''solar_radiation_high'', STRAIGHT_NUMBER, Some DASH_LARGE_NEGATIVE),
     (''uv_index'', TENTHS, Some DASH_SMALL),
     (''uv_index_high'', TENTHS, Some DASH_SMALL)]"

definition RECORD_ATTRIBUTE_MAP_DOWNLOAD :: "attribute list" where
  "RECORD_ATTRIBUTE_MAP_DOWNLOAD = [
     (''__special'', STRAIGHT_NUMBER, None),
     (''__special'', STRAIGHT_NUMBER, None),
     (''temperature_outside'', TENTHS, Some DASH_LARGE),
     (''temperature_outside_high'', TENTHS, Some DASH_LARGE_NEGATIVE),
     (''temperature_outside_low'', TENTHS, Some DASH_LARGE),
     (''__special'', STRAIGHT_NUMBER, None),
     (''__special'', STRAIGHT_NUMBER, None),
     (''barometric_pressure'', THOUSANDTHS, Some DASH_ZERO),
     (''solar_radiation'', STRAIGHT_NUMBER, Some DASH_LARGE),
     (''number_of_wind_samples'', STRAIGHT_NUMBER, Some DASH_ZERO),
     (''temperature_inside'', TENTHS, Some DASH_LARGE),
     (''humidity_inside'', STRAIGHT_NUMBER, Some DASH_SMALL),
     (''humidity_outside'', STRAIGHT_NUMBER, Some DASH_SMALL),
     (''wind_speed'', STRAIGHT_DECIMAL, Some DASH_SMALL),
     (''wind_speed_high'', STRAIGHT_DECIMAL, Some DASH_ZERO),
     (''wind_direction_speed_high'', WindDirection_lookup, Some DASH_SMALL),
     (''wind_direction_prevailing'', WindDirection_lookup, Some DASH_SMALL),
     (''uv_index'', TENTHS, Some DASH_SMALL),
     (''evapotranspiration'', THOUSANDTHS, Some DASH_ZERO),
     (''solar_radiation_high'', STRAIGHT_NUMBER, Some DASH_LARGE),
     (''uv_index_high'', TENTHS, Some DASH_SMALL),
     (''record_version'', STRAIGHT_NUMBER, None)]"

text \<open>
  The conditions of the two loops on the index: not a verification field and not a field
  with special handling.
\<close>

definition wlk_wanted :: "nat \<Rightarrow> bool" where
  "wlk_wanted i =
     (i \<notin> set (map fst RECORD_VERIFICATION_MAP_WLK) \<and> i \<notin> RECORD_SPECIAL_HANDLING_WLK)"

definition download_wanted :: "nat \<Rightarrow> bool" where
  "download_wanted i =
     (i \<notin> set (map fst RECORD_VERIFICATION_MAP_DOWNLOAD)
      \<and> i \<notin> RECORD_SPECIAL_HANDLING_DOWNLOAD)"

definition RECORD_WIND_DIRECTION_SPECIAL :: "(string \<times> string) list" where
  "RECORD_WIND_DIRECTION_SPECIAL = [
     (''wind_direction_prevailing'', ''wind_direction_prevailing_degrees''),
     (''wind_direction_speed_high'', ''wind_direction_speed_high_degrees'')]"

text \<open>
  What \<open>ArchiveIntervalRecord.load_from_wlk\<close> does once the record is built from the
  keyword arguments: rain collector type and rain amounts from the two fields with special
  handling, degrees of the wind directions, date and timestamp.
\<close>

definition wlk_post_process ::
  "raw list \<Rightarrow> RecordDict \<Rightarrow> int \<Rightarrow> int \<Rightarrow> int \<Rightarrow> error + RecordDict" where
  "wlk_post_process arguments record y m d =
     (case raw_int (arguments ! 10) of
        Inl e \<Rightarrow> Inl e
      | Inr rain_code \<Rightarrow>
     (case raw_int (arguments ! 11) of
        Inl e \<Rightarrow> Inl e
      | Inr rain_rate_clicks \<Rightarrow>
          let rain_collector_type = rain_code AND 0xF000;
              rain_clicks = rain_code AND 0x0FFF
          in
     (case RainCollectorTypeDatabase_call rain_collector_type of
        Inl e \<Rightarrow> Inl e
      | Inr collector \<Rightarrow>
          let record = record(''rain_collector_type'' \<mapsto> PyRainCollectorTypeDatabase collector);
              record = record(''rain_amount_clicks'' \<mapsto> PyInt rain_clicks);
              record = record(''rain_rate_clicks'' \<mapsto> PyInt rain_rate_clicks);
              record = record(''rain_amount'' \<mapsto>
                         PyDecimal (Database_clicks_to_inches collector rain_clicks));
              record = record(''rain_rate'' \<mapsto>
                         PyDecimal (Database_clicks_to_inches collector rain_rate_clicks))
          in
     (case wind_direction_special RECORD_WIND_DIRECTION_SPECIAL record of
        Inl e \<Rightarrow> Inl e
      | Inr record \<Rightarrow>
     (case datetime_new y m d 0 0 of
        Inl e \<Rightarrow> Inl e
      | Inr midnight \<Rightarrow>
     (case record ''minutes_past_midnight'' of
        Some (PyInt minutes) \<Rightarrow>
          (case datetime_add_minutes midnight minutes of
             Inl e \<Rightarrow> Inl e
           | Inr date \<Rightarrow>
               let record = record(''date'' \<mapsto> PyDatetime date)
               in Inr (record(''timestamp'' \<mapsto>
                         PyInt (convert_datetime_to_timestamp (Datetime date)))))
      | Some other \<Rightarrow> Inl TypeError
      | None \<Rightarrow> Inl KeyError))))))"

definition ArchiveIntervalRecord_wlk_from_bytes ::
  "byte list \<Rightarrow> int \<Rightarrow> int \<Rightarrow> int \<Rightarrow> error + RecordDict" where
  "ArchiveIntervalRecord_wlk_from_bytes data y m d =
     (case struct_unpack_from RECORD_FORMAT_WLK data of
        Inl e \<Rightarrow> Inl e
      | Inr arguments \<Rightarrow>
          (case verify RECORD_VERIFICATION_MAP_WLK arguments of
             Inl e \<Rightarrow> Inl e
           | Inr u \<Rightarrow>
               (case attribute_loop wlk_wanted
                       RECORD_ATTRIBUTE_MAP_WLK (enumerate 0 arguments) Map.empty of
                  Inl e \<Rightarrow> Inl e
                | Inr kwargs \<Rightarrow> wlk_post_process arguments kwargs y m d)))"

definition ArchiveIntervalRecord_load_from_wlk ::
  "byte list \<Rightarrow> int \<Rightarrow> int \<Rightarrow> int \<Rightarrow> (error + RecordDict) \<times> byte list" where
  "ArchiveIntervalRecord_load_from_wlk file_handle y m d =
     (case file_read RECORD_LENGTH_WLK file_handle of
        (data, file_handle') \<Rightarrow> (ArchiveIntervalRecord_wlk_from_bytes data y m d, file_handle'))"

text \<open>
  \<open>ArchiveIntervalRecord.load_from_download\<close>.  A record whose date stamp is below 1 is
  skipped: the method returns \<open>None\<close> (here \<open>Inr None\<close>) before any verification.
\<close>

definition download_post_process ::
  "raw list \<Rightarrow> RecordDict \<Rightarrow> pyval \<Rightarrow> error + RecordDict" where
  "download_post_process arguments record minutes_covered =
     (let record = record(''minutes_covered'' \<mapsto> minutes_covered)
      in
     (case raw_int (arguments ! 5) of
        Inl e \<Rightarrow> Inl e
      | Inr rain_clicks \<Rightarrow>
     (case raw_int (arguments ! 6) of
        Inl e \<Rightarrow> Inl e
      | Inr rain_rate_clicks \<Rightarrow>
          let record = record(''rain_collector_type'' \<mapsto>
                         PyRainCollectorTypeSerial Serial_inches_0_01);
              record = record(''rain_amount_clicks'' \<mapsto> PyInt rain_clicks);
              record = record(''rain_rate_clicks'' \<mapsto> PyInt rain_rate_clicks);
              record = record(''rain_amount'' \<mapsto>
                         PyDecimal (Serial_clicks_to_inches Serial_inches_0_01 rain_clicks));
              record = record(''rain_rate'' \<mapsto>
                         PyDecimal (Serial_clicks_to_inches Serial_inches_0_01 rain_rate_clicks))
          in
     (case wind_direction_special RECORD_WIND_DIRECTION_SPECIAL record of
        Inl e \<Rightarrow> Inl e
      | Inr record \<Rightarrow>
     (case raw_int (arguments ! 0) of
        Inl e \<Rightarrow> Inl e
      | Inr date_stamp \<Rightarrow>
     (case raw_int (arguments ! 1) of
        Inl e \<Rightarrow> Inl e
      | Inr time_stamp \<Rightarrow>
          let timestamp = push_bit 16 date_stamp + time_stamp;
              record = record(''timestamp'' \<mapsto> PyInt timestamp)
          in
     (case convert_timestamp_to_datetime timestamp of
        Inl e \<Rightarrow> Inl e
      | Inr date \<Rightarrow> Inr (record(''date'' \<mapsto> PyDatetime date)))))))))"

definition ArchiveIntervalRecord_download_from_bytes ::
  "byte list \<Rightarrow> pyval \<Rightarrow> error + RecordDict option" where
  "ArchiveIntervalRecord_download_from_bytes data minutes_covered =
     (case struct_unpack_from RECORD_FORMAT_DOWNLOAD data of
        Inl e \<Rightarrow> Inl e
      | Inr arguments \<Rightarrow>
          (case raw_int (arguments ! 0) of
             Inl e \<Rightarrow> Inl e
           | Inr date_stamp \<Rightarrow>
               if date_stamp < 1 then Inr None
               else
                 (case verify RECORD_VERIFICATION_MAP_DOWNLOAD arguments of
                    Inl e \<Rightarrow> Inl e
                  | Inr u \<Rightarrow>
                      (case attribute_loop download_wanted
                              RECORD_ATTRIBUTE_MAP_DOWNLOAD (enumerate 0 arguments) Map.empty of
                         Inl e \<Rightarrow> Inl e
                       | Inr kwargs \<Rightarrow>
                           (case download_post_process arguments kwargs minutes_covered of
                              Inl e \<Rightarrow> Inl e
                            | Inr record \<Rightarrow> Inr (Some record))))))"

definition ArchiveIntervalRecord_load_from_download ::
  "byte list \<Rightarrow> pyval \<Rightarrow> (error + RecordDict option) \<times> byte list" where
  "ArchiveIntervalRecord_load_from_download response_handle minutes_covered =
     (case file_read RECORD_LENGTH_DOWNLOAD response_handle of
        (data, response_handle') \<Rightarrow>
          (ArchiveIntervalRecord_download_from_bytes data minutes_covered, response_handle'))"

subsection \<open>Telemetry frame\<close>

definition RECORD_LENGTH :: nat where "RECORD_LENGTH = 99"

definition LOOP2_RECORD_FORMAT :: "format_char list" where
  "LOOP2_RECORD_FORMAT = concat [
     [bytes_s 3],
     [char_b],
     [uchar_B],
     [ushort_H],
     [ushort_H],
     [short_h],
     [uchar_B],
     [short_h],
     [uchar_B],
     [uchar_B],
     [ushort_H],
     [ushort_H],
     [ushort_H],
     [ushort_H],
     [ushort_H],
     [ushort_H],
     [ushort_H],
     [short_h],
     [uchar_B],
     [uchar_B],
     [uchar_B],
     [short_h],
     [short_h],
     [short_h],
     [ushort_H],
     [uchar_B],
     [ushort_H],
     [ushort_H],
     replicate 2 pad_x,
     [ushort_H],
     [ushort_H],
     [ushort_H],
     [ushort_H],
     [ushort_H],
     replicate 11 pad_x,
     [uchar_B],
     [pad_x],
     replicate 6 pad_x,
     [uchar_B],
     replicate 3 pad_x,
     [ushort_H],
     [ushort_H],
     [ushort_H],
     [ushort_H],
     [ushort_H],
     [ushort_H],
     [char_c],
     [char_c],
     [ushort_H]]"

text \<open>The byte strings \<open>b'LOO'\<close>, \<open>b'\\n'\<close> and \<open>b'\\r'\<close> are given by their codes.\<close>

definition LOOP2_RECORD_VERIFICATION_MAP_WLK :: "(nat \<times> raw) list" where
  "LOOP2_RECORD_VERIFICATION_MAP_WLK = [
     (0, RBytes [0x4C, 0x4F, 0x4F]),
     (2, RInt 1),
     (3, RInt 0x7FFF),
     (9, RInt 0xFF),
     (15, RInt 0x7FFF),
     (16, RInt 0x7FFF),
     (18, RInt 0xFF),
     (20, RInt 0xFF),
     (33, RInt 0xFF),
     (35, RInt 0x7FFF),
     (36, RInt 0x7FFF),
     (37, RInt 0x7FFF),
     (38, RInt 0x7FFF),
     (39, RInt 0x7FFF),
     (40, RInt 0x7FFF),
     (41, RBytes [0x0A]),
     (42, RBytes [0x0D])]"

definition LOOP2_RECORD_SPECIAL_HANDLING :: "nat set" where
  "LOOP2_RECORD_SPECIAL_HANDLING = set (map fst LOOP2_RECORD_VERIFICATION_MAP_WLK)"

definition LOOP2_RECORD_ATTRIBUTE_MAP :: "attribute list" where
  "LOOP2_RECORD_ATTRIBUTE_MAP = [
     (''_special'', STRAIGHT_NUMBER, None),
     (''barometric_trend'', STRAIGHT_NUMBER, Some 80),
     (''_special'', STRAIGHT_NUMBER, None),
     (''_special'', STRAIGHT_NUMBER, None),
     (''barometric_pressure'', THOUSANDTHS, Some DASH_ZERO),
     (''temperature_inside'', TENTHS, Some DASH_LARGE),
     (''humidity_inside'', STRAIGHT_NUMBER, Some DASH_SMALL),
     (''temperature_outside'', TENTHS, Some DASH_LARGE),
     (''wind_speed'', STRAIGHT_DECIMAL, Some DASH_SMALL),
     (''_special'', STRAIGHT_NUMBER, None),
     (''wind_direction_degrees'', STRAIGHT_NUMBER, Some DASH_ZERO),
     (''wind_speed_10_minute_average'', TENTHS, Some DASH_ZERO),
     (''wind_speed_2_minute_average'', TENTHS, Some DASH_ZERO),
     (''wind_speed_10_minute_gust'', TENTHS, Some DASH_ZERO),
     (''wind_speed_10_minute_gust_direction_degrees'', STRAIGHT_NUMBER, Some DASH_ZERO),
     (''_special'', STRAIGHT_NUMBER, None),
     (''_special'', STRAIGHT_NUMBER, None),
     (''dew_point'', STRAIGHT_DECIMAL, Some DASH_SMALL),
     (''_special'', STRAIGHT_NUMBER, None),
     (''humidity_outside'', STRAIGHT_NUMBER, Some DASH_SMALL),
     (''_special'', STRAIGHT_NUMBER, None),
     (''heat_index'', STRAIGHT_NUMBER, Some DASH_SMALL),
     (''wind_chill'', STRAIGHT_NUMBER, Some DASH_SMALL),
     (''thsw_index'', STRAIGHT_NUMBER, Some DASH_SMALL),
     (''rain_rate_clicks'', STRAIGHT_NUMBER, None),
     (''uv_index'', TENTHS, Some DASH_SMALL),
     (''solar_radiation'', STRAIGHT_NUMBER, Some DASH_LARGE),
     (''rain_clicks_this_storm'', STRAIGHT_NUMBER, None),
     (''rain_clicks_today'', STRAIGHT_NUMBER, None),
     (''rain_clicks_15_minutes'', STRAIGHT_NUMBER, None),
     (''rain_clicks_1_hour'', STRAIGHT_NUMBER, None),
     (''evapotranspiration'', THOUSANDTHS, Some DASH_ZERO),
     (''rain_clicks_24_hours'', STRAIGHT_NUMBER, None),
     (''_special'', STRAIGHT_NUMBER, None),
     (''minute_in_hour'', STRAIGHT_NUMBER, Some 60)]"

definition LOOP_WIND_DIRECTION_SPECIAL :: "(string \<times> string) list" where
  "LOOP_WIND_DIRECTION_SPECIAL = [
     (''wind_direction_degrees'', ''wind_direction''),
     (''wind_speed_10_minute_gust_direction_degrees'', ''wind_speed_10_minute_gust_direction'')]"

definition LOOP_RAIN_AMOUNT_SPECIAL :: "(string \<times> string) list" where
  "LOOP_RAIN_AMOUNT_SPECIAL = [
     (''rain_rate_clicks'', ''rain_rate''),
     (''rain_clicks_this_storm'', ''rain_amount_this_storm''),
     (''rain_clicks_today'', ''rain_amount_today''),
     (''rain_clicks_15_minutes'', ''rain_amount_15_minutes''),
     (''rain_clicks_1_hour'', ''rain_amount_1_hour''),
     (''rain_clicks_24_hours'', ''rain_amount_24_hours'')]"

text \<open>
  The condition of the loop on the index: below the length of the attribute map, not a
  verification field and not a field with special handling.
\<close>

definition loop2_wanted :: "nat \<Rightarrow> bool" where
  "loop2_wanted i =
     (i < length LOOP2_RECORD_ATTRIBUTE_MAP
      \<and> i \<notin> set (map fst LOOP2_RECORD_VERIFICATION_MAP_WLK)
      \<and> i \<notin> LOOP2_RECORD_SPECIAL_HANDLING)"

text \<open>
  \<open>_post_process_arguments\<close>.  The barometric trend is replaced by the member of
  \<open>BarometricTrend\<close> with that value, or by \<open>None\<close> when the call raises \<open>ValueError\<close>
  (as it does on \<open>None\<close>); the degrees are turned into compass points and the rain clicks
  into amounts, a value that is \<open>None\<close> or 0 giving \<open>None\<close>.
\<close>

definition barometric_trend_special :: "RecordDict \<Rightarrow> error + RecordDict" where
  "barometric_trend_special arguments =
     (case arguments ''barometric_trend'' of
        None \<Rightarrow> Inl KeyError
      | Some (PyInt n) \<Rightarrow>
          (case BarometricTrend_call n of
             Inl e \<Rightarrow> Inr (arguments(''barometric_trend'' \<mapsto> PyNone))
           | Inr t \<Rightarrow> Inr (arguments(''barometric_trend'' \<mapsto> PyBarometricTrend t)))
      | Some other \<Rightarrow> Inr (arguments(''barometric_trend'' \<mapsto> PyNone)))"

fun loop_wind_direction_special ::
  "(string \<times> string) list \<Rightarrow> RecordDict \<Rightarrow> error + RecordDict" where
  "loop_wind_direction_special [] arguments = Inr arguments"
| "loop_wind_direction_special ((k1, k2) # rest) arguments =
     (case arguments k1 of
        None \<Rightarrow> Inl KeyError
      | Some v \<Rightarrow>
          if truthy v
          then (case v of
                  PyInt n \<Rightarrow>
                    (case from_degrees (of_int n) of
                       Inl e \<Rightarrow> Inl e
                     | Inr None \<Rightarrow> loop_wind_direction_special rest (arguments(k2 \<mapsto> PyNone))
                     | Inr (Some m) \<Rightarrow>
                         loop_wind_direction_special rest (arguments(k2 \<mapsto> PyWindDirection m)))
                | _ \<Rightarrow> Inl TypeError)
          else loop_wind_direction_special rest (arguments(k2 \<mapsto> PyNone)))"

fun loop_rain_amount_special ::
  "RainCollectorTypeSerial \<Rightarrow> (string \<times> string) list \<Rightarrow> RecordDict \<Rightarrow> error + RecordDict"
where
  "loop_rain_amount_special rain_collector_type [] arguments = Inr arguments"
| "loop_rain_amount_special rain_collector_type ((k1, k2) # rest) arguments =
     (case arguments k1 of
        None \<Rightarrow> Inl KeyError
      | Some v \<Rightarrow>
          if truthy v
          then (case v of
                  PyInt n \<Rightarrow>
                    loop_rain_amount_special rain_collector_type rest
                      (arguments(k2 \<mapsto> PyDecimal (Serial_clicks_to_inches rain_collector_type n)))
                | _ \<Rightarrow> Inl TypeError)
          else loop_rain_amount_special rain_collector_type rest (arguments(k2 \<mapsto> PyNone)))"

definition post_process_arguments :: "RecordDict \<Rightarrow> error + RecordDict" where
  "post_process_arguments arguments =
     (let rain_collector_type = Serial_inches_0_01
      in case barometric_trend_special arguments of
           Inl e \<Rightarrow> Inl e
         | Inr arguments \<Rightarrow>
             (case loop_wind_direction_special LOOP_WIND_DIRECTION_SPECIAL arguments of
                Inl e \<Rightarrow> Inl e
              | Inr arguments \<Rightarrow>
                  loop_rain_amount_special rain_collector_type LOOP_RAIN_AMOUNT_SPECIAL arguments))"

text \<open>
  \<open>_get_loop_2_arguments\<close>, in two parts: the unpacking, the verification and the loop over
  the attribute map, then the post-processing.  The checksum of the frame is reported in
  \<open>crc_match\<close> and never raises.
\<close>

definition loop_2_attributes :: "byte list \<Rightarrow> error + RecordDict" where
  "loop_2_attributes data =
     (case struct_unpack_from LOOP2_RECORD_FORMAT data of
        Inl e \<Rightarrow> Inl e
      | Inr unpacked \<Rightarrow>
          (case verify LOOP2_RECORD_VERIFICATION_MAP_WLK unpacked of
             Inl e \<Rightarrow> Inl e
           | Inr u \<Rightarrow>
               let arguments = [''crc_match'' \<mapsto> PyBool (calculate_weatherlink_crc data = 0),
                                ''record_type'' \<mapsto> PyInt 2]
               in attribute_loop loop2_wanted
                    LOOP2_RECORD_ATTRIBUTE_MAP (enumerate 0 unpacked) arguments))"

definition get_loop_2_arguments :: "byte list \<Rightarrow> (error + RecordDict) \<times> byte list" where
  "get_loop_2_arguments socket_file =
     (case file_read RECORD_LENGTH socket_file of
        (data, socket_file') \<Rightarrow>
          ((case loop_2_attributes data of
              Inl e \<Rightarrow> Inl e
            | Inr arguments \<Rightarrow> post_process_arguments arguments),
           socket_file'))"

definition load_loop_2_from_connection :: "byte list \<Rightarrow> (error + RecordDict) \<times> byte list" where
  "load_loop_2_from_connection socket_file = get_loop_2_arguments socket_file"

subsection \<open>The rule of the attribute loop, and sample data\<close>

text \<open>
  What the loop over an attribute map stores for one field: \<open>None\<close> when the unpacked value
  equals the sentinel of the field, the transform of the unpacked value otherwise (a
  transform that raises stores nothing).
\<close>

definition field_decoded :: "RecordDict \<Rightarrow> attribute \<Rightarrow> raw \<Rightarrow> bool" where
  "field_decoded record a v =
     (case a of
        (k, transform, sentinel) \<Rightarrow>
          if equals_sentinel v sentinel then record k = Some PyNone
          else (case transform v of Inl e \<Rightarrow> False | Inr x \<Rightarrow> record k = Some x))"

text \<open>A transform raises on a field when the field is not at its sentinel and the call fails.\<close>

definition transform_raises :: "attribute \<Rightarrow> raw \<Rightarrow> bool" where
  "transform_raises a v =
     (case a of (k, transform, sentinel) \<Rightarrow> \<not> equals_sentinel v sentinel \<and> isl (transform v))"

text \<open>The names under which the loop stores the fields with index below \<open>n\<close>.\<close>

definition wanted_names :: "(nat \<Rightarrow> bool) \<Rightarrow> attribute list \<Rightarrow> nat \<Rightarrow> string list" where
  "wanted_names wanted amap n = map (\<lambda>j. fst (amap ! j)) (filter wanted [0..<n])"

text \<open>
  A daily summary of 176 bytes: version bytes 2 and 3, 1440 minutes, an outside high of
  12.3 degrees, the sentinel 32767 as outside low, zeros elsewhere.
\<close>

definition daily_summary_sample :: "byte list" where
  "daily_summary_sample =
     [0x02, 0x00, 0xA0, 0x05, 0x7B, 0x00, 0xFF, 0x7F] @ replicate 80 0x00
     @ [0x03] @ replicate 87 0x00"

text \<open>The values that the layout of the daily summary unpacks from the sample.\<close>

definition sample_arguments :: "raw list" where
  "sample_arguments =
     [RInt 2, RInt 1440, RInt 123, RInt 32767] @ replicate 26 (RInt 0) @ [RInt 3]
       @ replicate 11 (RInt 0)"



section \<open>Properties of the timestamp codec\<close>

lemma py_int_div_nonneg:
  assumes "0 \<le> a" and "0 < b"
  shows "py_int (of_int a / of_int b) = a div b"
  using assms by (simp add: py_int_def floor_divide_of_int_eq)

lemma py_int_div_plus:
  assumes "0 \<le> a" and "0 < b" and "0 \<le> c"
  shows "py_int (of_int a / of_int b + of_int c) = a div b + c"
proof -
  have "0 \<le> (of_int a / of_int b + of_int c :: real)" using assms by simp
  then have "py_int (of_int a / of_int b + of_int c) = \<lfloor>of_int a / of_int b + of_int c :: real\<rfloor>"
    by (simp add: py_int_def)
  also have "\<dots> = \<lfloor>of_int a / of_int b :: real\<rfloor> + c" by simp
  also have "\<dots> = a div b + c" by (simp add: floor_divide_of_int_eq)
  finally show ?thesis .
qed

lemma days_in_month_le: "days_in_month y m \<le> 31"
  by (simp add: days_in_month_def)

lemma date_part_split:
  assumes "1 \<le> d" "d \<le> 31" "1 \<le> m" "m \<le> 12"
  shows "(d + m * 32 + y * 512) div 512 = (y::int)"
    and "(d + m * 32) div 32 = m"
  using assms by auto

lemma time_part_split:
  assumes "0 \<le> mi" "mi \<le> 59"
  shows "(mi + h * 100) div 100 = (h::int)"
  using assms by auto

lemma unpack_shift:
  assumes "0 \<le> t" "t < 65536"
  shows "drop_bit 16 (push_bit 16 D + t) = (D::int)"
  using assms by (simp add: drop_bit_eq_div push_bit_eq_mult)

text \<open>
  C3: for every date-time representable in the packed format, decoding its encoding gives
  the date-time back, and the encoding is
  \<open>((day + month * 32 + (year - 2000) * 512) << 16) + (minute + hour * 100)\<close>.
\<close>

theorem C3_timestamp_round_trip:
  assumes "representable dt"
  shows "convert_timestamp_to_datetime (convert_datetime_to_timestamp (Datetime dt)) = Inr dt
    \<and> convert_datetime_to_timestamp (Datetime dt) =
        push_bit 16 (day dt + month dt * 32 + (year dt - 2000) * 512) + (minute dt + hour dt * 100)"
proof -
  define D where "D = day dt + (month dt * 32) + ((year dt - 2000) * 512)"
  define t where "t = minute dt + (hour dt * 100)"
  from assms have r: "2000 \<le> year dt" "year dt \<le> 9999" "1 \<le> month dt" "month dt \<le> 12"
    "1 \<le> day dt" "day dt \<le> days_in_month (year dt) (month dt)"
    "0 \<le> hour dt" "hour dt \<le> 23" "0 \<le> minute dt" "minute dt \<le> 59"
    "second dt = 0" "microsecond dt = 0"
    by (simp_all add: representable_def date_fields_ok_def)
  have d31: "day dt \<le> 31" using r(6) days_in_month_le [of "year dt" "month dt"] by linarith
  have t_bounds: "0 \<le> t" "t < 65536" using r by (simp_all add: t_def)
  have D_nonneg: "0 \<le> D" using r by (simp add: D_def)
  have enc: "convert_datetime_to_timestamp (Datetime dt) = push_bit 16 D + t"
    by (simp add: convert_datetime_to_timestamp_def D_def t_def)
  have dp: "drop_bit 16 (push_bit 16 D + t) = D" using t_bounds by (rule unpack_shift)
  have y: "py_int ((of_int D / 512) + 2000) = year dt"
  proof -
    have "py_int (of_int D / of_int 512 + of_int 2000) = D div 512 + 2000"
      using D_nonneg by (rule py_int_div_plus) simp_all
    moreover have "D div 512 = year dt - 2000"
      unfolding D_def using r(3,4,5) d31 by (simp add: date_part_split(1))
    ultimately show ?thesis by simp
  qed
  have rest: "D - ((year dt - 2000) * 512) = day dt + month dt * 32" by (simp add: D_def)
  have m: "py_int (of_int (day dt + month dt * 32) / 32) = month dt"
  proof -
    have "py_int (of_int (day dt + month dt * 32) / of_int 32) = (day dt + month dt * 32) div 32"
      using r by (intro py_int_div_nonneg) simp_all
    then show ?thesis using r(3,4,5) d31 by (simp add: date_part_split(2))
  qed
  have h: "py_int (of_int t / 100) = hour dt"
  proof -
    have "py_int (of_int t / of_int 100) = t div 100"
      using t_bounds by (intro py_int_div_nonneg) simp_all
    then show ?thesis using r(9,10) by (simp add: t_def time_part_split)
  qed
  have new: "datetime_new (year dt) (month dt) (day dt) (hour dt) (minute dt) = Inr dt"
    using r by (simp add: datetime_new_def date_fields_ok_def)
  have "convert_timestamp_to_datetime (push_bit 16 D + t) = Inr dt"
    unfolding convert_timestamp_to_datetime_def Let_def dp
    by (simp only: add_diff_cancel_left' y rest m h) (simp add: t_def new)
  with enc show ?thesis by (simp add: D_def t_def)
qed

theorem C3_timestamp_round_trip_witness:
  "representable \<lparr>year = 2020, month = 4, day = 30, hour = 23, minute = 59, second = 0, microsecond = 0\<rparr>
   \<and> convert_datetime_to_timestamp (Datetime \<lparr>year = 2020, month = 4, day = 30, hour = 23, minute = 59, second = 0, microsecond = 0\<rparr>) = 681445687
   \<and> convert_timestamp_to_datetime 681445687 = Inr \<lparr>year = 2020, month = 4, day = 30, hour = 23, minute = 59, second = 0, microsecond = 0\<rparr>"
proof -
  let ?dt = "\<lparr>year = 2020, month = 4, day = 30, hour = 23, minute = 59, second = 0, microsecond = 0\<rparr>"
  have r: "representable ?dt"
    by (simp add: representable_def date_fields_ok_def days_in_month_def)
  have e: "convert_datetime_to_timestamp (Datetime ?dt) = 681445687"
    by (simp add: convert_datetime_to_timestamp_def)
  from C3_timestamp_round_trip [OF r] e r show ?thesis by simp
qed

section \<open>Properties of the compass enumeration\<close>

lemma map_of_run:
  "map_of (run lo hi m) k = (if lo \<le> k \<and> k \<le> hi then Some m else None)"
  unfolding run_def by (simp add: map_of_map_restrict restrict_map_def)

lemma map_add_run:
  "(f ++ map_of (run lo hi m)) k = (if lo \<le> k \<and> k \<le> hi then Some m else f k)"
  by (simp add: map_add_def map_of_run)

lemma FROM_DEGREE_MAP_total:
  assumes "1 \<le> k" and "k \<le> 360"
  shows "\<exists>m. map_of FROM_DEGREE_MAP k = Some m"
  using assms unfolding FROM_DEGREE_MAP_def
  by (simp add: map_add_run map_of_run)

text \<open>
  C8: \<open>from_degrees\<close> is absent at 0, at 361 and everywhere outside \<open>[1, 360]\<close>, it is \<open>N\<close>
  at 1 and at 360, and the degree value attached to a member is its code times 22.5, except
  for code 0 (N), whose degree value is 360 and not 0.
\<close>

theorem C8_from_degrees_and_member_degrees:
  "(\<forall>dg. dg < 1 \<or> dg > 360 \<longrightarrow> from_degrees dg = Inr None)
   \<and> from_degrees 0 = Inr None
   \<and> from_degrees 361 = Inr None
   \<and> from_degrees 1 = Inr (Some N)
   \<and> from_degrees 360 = Inr (Some N)
   \<and> (\<forall>m. degrees m =
          (if WindDirection_value m = 0 then 360 else of_int (WindDirection_value m) * 22.5))
   \<and> WindDirection_value N = 0 \<and> degrees N = 360 \<and> degrees N \<noteq> 0"
proof -
  have a: "\<forall>dg. dg < 1 \<or> dg > 360 \<longrightarrow> from_degrees dg = Inr None"
    by (simp add: from_degrees_def)
  have b: "from_degrees 1 = Inr (Some N)"
    by (simp add: from_degrees_def dict_get_def FROM_DEGREE_MAP_def map_add_run map_of_run)
  have c: "from_degrees 360 = Inr (Some N)"
    by (simp add: from_degrees_def dict_get_def FROM_DEGREE_MAP_def map_add_run map_of_run)
  have d: "\<forall>m. degrees m =
      (if WindDirection_value m = 0 then 360 else of_int (WindDirection_value m) * 22.5)"
    by (simp add: degrees_def Let_def)
  have e: "degrees N = 360"
    by (simp add: degrees_def)
  from a b c d e show ?thesis by (simp add: from_degrees_def)
qed

theorem C8_from_degrees_witness:
  "((400::real) < 1 \<or> (400::real) > 360) \<and> from_degrees 400 = Inr None
   \<and> WindDirection_value NNE \<noteq> 0 \<and> degrees NNE = 22.5"
  using C8_from_degrees_and_member_degrees by simp

text \<open>
  C9: \<open>from_degrees\<close> raises \<open>KeyError\<close> at some number strictly between 1 and 360 that is
  not whole, for instance 90.5; it returns a member at every whole number of \<open>[1, 360]\<close>
  and absent outside \<open>[1, 360]\<close>.
\<close>

theorem C9_from_degrees_key_error:
  "1 < (90.5::real) \<and> (90.5::real) < 360 \<and> from_degrees 90.5 = Inl KeyError
   \<and> (\<forall>dg. 1 \<le> dg \<and> dg \<le> 360 \<and> dg \<noteq> of_int \<lfloor>dg\<rfloor> \<longrightarrow> from_degrees dg = Inl KeyError)
   \<and> (\<forall>k. 1 \<le> k \<and> k \<le> 360 \<longrightarrow> (\<exists>m. from_degrees (of_int k) = Inr (Some m)))
   \<and> (\<forall>dg. dg < 1 \<or> dg > 360 \<longrightarrow> from_degrees dg = Inr None)"
proof -
  have a: "\<forall>dg. 1 \<le> dg \<and> dg \<le> 360 \<and> dg \<noteq> of_int \<lfloor>dg\<rfloor> \<longrightarrow> from_degrees dg = Inl KeyError"
    by (simp add: from_degrees_def dict_get_def)
  have "(90.5::real) \<noteq> of_int \<lfloor>90.5::real\<rfloor>" by simp
  with a have b: "from_degrees 90.5 = Inl KeyError" by simp
  have c: "\<exists>m. from_degrees (of_int k) = Inr (Some m)" if "1 \<le> k" "k \<le> 360" for k
  proof -
    from FROM_DEGREE_MAP_total [OF that] obtain m where "map_of FROM_DEGREE_MAP k = Some m" ..
    with that show ?thesis by (simp add: from_degrees_def dict_get_def)
  qed
  have d: "\<forall>dg. dg < 1 \<or> dg > 360 \<longrightarrow> from_degrees dg = Inr None"
    by (simp add: from_degrees_def)
  from a b c d show ?thesis by simp
qed

theorem C9_from_degrees_witness:
  "from_degrees 90.5 = Inl KeyError
   \<and> (\<exists>m. from_degrees 90 = Inr (Some m)) \<and> from_degrees 0 = Inr None"
proof -
  have "\<forall>k. 1 \<le> k \<and> k \<le> 360 \<longrightarrow> (\<exists>m. from_degrees (of_int k) = Inr (Some m))"
    using C9_from_degrees_key_error by simp
  then have "\<exists>m. from_degrees (of_int 90) = Inr (Some m)"
    by (rule allE [where x = 90]) simp
  moreover have "from_degrees 90.5 = Inl KeyError \<and> from_degrees 0 = Inr None"
    using C9_from_degrees_key_error by simp
  ultimately show ?thesis by simp
qed

section \<open>Properties of the checksum\<close>

lemma table_length: "length WEATHERLINK_CRC_TABLE = 256"
  by (simp add: WEATHERLINK_CRC_TABLE_def)

lemma table_range: "\<forall>x \<in> set WEATHERLINK_CRC_TABLE. 0 \<le> x \<and> x < 65536"
  by (simp add: WEATHERLINK_CRC_TABLE_def)

lemma table_low_distinct: "distinct (map (take_bit 8) WEATHERLINK_CRC_TABLE)"
  by code_simp

lemma ff00: "(0xFF00::int) = push_bit 8 (mask 8)"
  by (simp add: mask_eq_exp_minus_1)

lemma shifted_crc: "push_bit 8 crc AND 0xFF00 = push_bit 8 (take_bit 8 (crc::int))"
  unfolding ff00 by (rule bit_eqI) (auto simp: bit_simps)

lemma low_xor_shifted: "take_bit 8 (a XOR push_bit 8 l) = take_bit 8 (a::int)"
  by (rule bit_eqI) (auto simp: bit_simps)

lemma xor_cancel_left: "(a::int) XOR b = a XOR c \<Longrightarrow> b = c"
  by (metis bit.xor_left_self)

lemma xor_cancel_right: "(b::int) XOR a = c XOR a \<Longrightarrow> b = c"
  by (metis xor_cancel_left xor.commute)

lemma split_bytes:
  "take_bit 8 a = take_bit 8 b \<Longrightarrow> drop_bit 8 a = drop_bit 8 b \<Longrightarrow> a = (b::int)"
  by (metis bits_ident)

lemma and_ff: "(x::int) AND 0xFF = take_bit 8 x"
  by (simp add: take_bit_eq_mask mask_eq_exp_minus_1)

lemma hi_small:
  "0 \<le> c \<Longrightarrow> c < 2 ^ 16 \<Longrightarrow> take_bit 8 (drop_bit 8 c) = drop_bit 8 (c::int)"
  by (simp add: take_bit_int_eq_self drop_bit_eq_div)

lemma crc_update_alt:
  "crc_update crc byte =
     (WEATHERLINK_CRC_TABLE ! nat (table_index crc byte)) XOR push_bit 8 (take_bit 8 crc)"
  by (simp add: crc_update_def table_index_def shifted_crc)

lemma table_index_range:
  "0 \<le> table_index crc byte" "table_index crc byte < 256"
proof -
  have a: "0 \<le> drop_bit 8 crc AND 0xFF" by simp
  have b: "drop_bit 8 crc AND 0xFF < 2 ^ 8"
    using take_bit_int_less_exp [of 8 "drop_bit 8 crc"] by (simp add: and_ff)
  have c: "0 \<le> uint byte" by simp
  have d: "uint byte < 2 ^ 8" using uint_bounded [of byte] by simp
  show "0 \<le> table_index crc byte" using a c by (simp add: table_index_def)
  show "table_index crc byte < 256"
    using XOR_upper [OF a b d] by (simp add: table_index_def)
qed

lemma table_entry_range:
  assumes "i < 256"
  shows "0 \<le> WEATHERLINK_CRC_TABLE ! i" and "WEATHERLINK_CRC_TABLE ! i < 2 ^ 16"
  using assms table_range table_length nth_mem [of i WEATHERLINK_CRC_TABLE] by auto

lemma crc_update_range:
  "0 \<le> crc_update crc byte" "crc_update crc byte < 2 ^ 16"
proof -
  let ?i = "nat (table_index crc byte)"
  have i: "?i < 256" using table_index_range [of crc byte] by simp
  have s: "0 \<le> push_bit 8 (take_bit 8 crc)" "push_bit 8 (take_bit 8 crc) < 2 ^ 16"
    using take_bit_int_less_exp [of 8 crc] by (simp_all add: push_bit_eq_mult)
  show "0 \<le> crc_update crc byte"
    using table_entry_range(1) [OF i] s(1) by (simp add: crc_update_alt)
  show "crc_update crc byte < 2 ^ 16"
    unfolding crc_update_alt
    using XOR_upper [OF table_entry_range(1) [OF i] table_entry_range(2) [OF i] s(2)] .
qed

lemma crc_update_low:
  "take_bit 8 (crc_update crc byte) =
     map (take_bit 8) WEATHERLINK_CRC_TABLE ! nat (table_index crc byte)"
proof -
  have "nat (table_index crc byte) < length WEATHERLINK_CRC_TABLE"
    using table_index_range [of crc byte] by (simp add: table_length)
  then have "map (take_bit 8) WEATHERLINK_CRC_TABLE ! nat (table_index crc byte)
      = take_bit 8 (WEATHERLINK_CRC_TABLE ! nat (table_index crc byte))"
    by (rule nth_map)
  then show ?thesis
    unfolding crc_update_alt low_xor_shifted by (rule sym)
qed

lemma same_index:
  assumes "crc_update c b = crc_update c' b'"
  shows "table_index c b = table_index c' b'"
proof -
  let ?i = "nat (table_index c b)" and ?j = "nat (table_index c' b')"
  have "map (take_bit 8) WEATHERLINK_CRC_TABLE ! ?i = map (take_bit 8) WEATHERLINK_CRC_TABLE ! ?j"
    using assms crc_update_low by metis
  moreover have "?i < length (map (take_bit 8) WEATHERLINK_CRC_TABLE)"
    "?j < length (map (take_bit 8) WEATHERLINK_CRC_TABLE)"
    using table_index_range [of c b] table_index_range [of c' b'] by (simp_all add: table_length)
  ultimately have "?i = ?j"
    using nth_eq_iff_index_eq [OF table_low_distinct] by blast
  then show ?thesis
    using table_index_range(1) [of c b] table_index_range(1) [of c' b'] by simp
qed

lemma crc_update_inj_byte:
  assumes "crc_update c b = crc_update c b'"
  shows "b = b'"
proof -
  from same_index [OF assms] have "uint b = uint b'"
    unfolding table_index_def by (rule xor_cancel_left)
  then show ?thesis by (rule word_uint_eqI)
qed

lemma crc_update_inj_state:
  assumes "0 \<le> c" "c < 2 ^ 16" "0 \<le> c'" "c' < 2 ^ 16"
    and eq: "crc_update c b = crc_update c' b"
  shows "c = c'"
proof -
  have idx: "table_index c b = table_index c' b" using eq by (rule same_index)
  then have "drop_bit 8 c AND 0xFF = drop_bit 8 c' AND 0xFF"
    unfolding table_index_def by (rule xor_cancel_right)
  then have hi: "drop_bit 8 c = drop_bit 8 c'"
    using assms(1-4) by (simp add: and_ff hi_small)
  from eq idx have "push_bit 8 (take_bit 8 c) = push_bit 8 (take_bit 8 c')"
    unfolding crc_update_alt by (simp add: xor_cancel_left)
  then have lo: "take_bit 8 c = take_bit 8 c'"
    by (simp add: push_bit_eq_mult)
  from lo hi show ?thesis by (rule split_bytes)
qed

lemma foldl_crc_range:
  assumes "0 \<le> s" "s < 2 ^ 16"
  shows "0 \<le> foldl crc_update s xs \<and> foldl crc_update s xs < 2 ^ 16"
  using assms
proof (induction xs arbitrary: s)
  case Nil
  then show ?case by simp
next
  case (Cons x xs)
  show ?case using Cons.IH [OF crc_update_range [of s x]] by simp
qed

lemma foldl_crc_inj:
  assumes "0 \<le> s" "s < 2 ^ 16" "0 \<le> s'" "s' < 2 ^ 16" "s \<noteq> s'"
  shows "foldl crc_update s xs \<noteq> foldl crc_update s' xs"
  using assms
proof (induction xs arbitrary: s s')
  case Nil
  then show ?case by simp
next
  case (Cons x xs)
  have "crc_update s x \<noteq> crc_update s' x"
    using crc_update_inj_state [of s s' x] Cons.prems by blast
  then show ?case
    using Cons.IH [OF crc_update_range [of s x] crc_update_range [of s' x]] by simp
qed

text \<open>
  C7: when the checksum of a byte sequence is 0, replacing any single byte of it by a
  different byte value makes the checksum of the modified sequence nonzero.
\<close>

theorem C7_single_byte_change_detected:
  assumes "calculate_weatherlink_crc data_bytes = 0"
    and "i < length data_bytes"
    and "b \<noteq> data_bytes ! i"
  shows "calculate_weatherlink_crc (data_bytes[i := b]) \<noteq> 0"
proof -
  let ?pre = "take i data_bytes" and ?post = "drop (Suc i) data_bytes"
  let ?s = "foldl crc_update 0 ?pre"
  have orig: "data_bytes = ?pre @ data_bytes ! i # ?post"
    using assms(2) by (rule id_take_nth_drop)
  have upd: "data_bytes[i := b] = ?pre @ b # ?post"
    using assms(2) by (rule upd_conv_take_nth_drop)
  have "crc_update ?s b \<noteq> crc_update ?s (data_bytes ! i)"
    using assms(3) crc_update_inj_byte by blast
  then have "foldl crc_update (crc_update ?s b) ?post
      \<noteq> foldl crc_update (crc_update ?s (data_bytes ! i)) ?post"
    by (intro foldl_crc_inj crc_update_range)
  moreover have "foldl crc_update (crc_update ?s (data_bytes ! i)) ?post = 0"
    using assms(1) orig unfolding calculate_weatherlink_crc_def by (metis foldl_Cons foldl_append)
  ultimately show ?thesis
    unfolding calculate_weatherlink_crc_def by (subst upd) simp
qed

theorem C7_single_byte_change_witness:
  "calculate_weatherlink_crc [1, 16, 33] = 0
   \<and> 1 < length [1, 16, 33 :: byte]
   \<and> (17 :: byte) \<noteq> [1, 16, 33] ! 1
   \<and> calculate_weatherlink_crc ([1, 16, 33][1 := 17]) \<noteq> 0"
proof -
  have z: "calculate_weatherlink_crc [1, 16, 33] = 0" by code_simp
  have l: "1 < length [1, 16, 33 :: byte]" by simp
  have d: "(17 :: byte) \<noteq> [1, 16, 33] ! 1" by simp
  from C7_single_byte_change_detected [OF z l d] z l d show ?thesis by simp
qed

section \<open>Properties of the heat index and the wind chill\<close>

lemmas hi_consts = HI_SECOND_FORMULA_THRESHOLD_def HI_0_094_def HI_0_5_def HI_1_2_def HI_61_0_def
  HI_68_0_def HI_C1_def HI_C2_def HI_C3_def HI_C4_def HI_C5_def HI_C6_def HI_C7_def HI_C8_def
  HI_C9_def HI_FIRST_ADJUSTMENT_THRESHOLD_def HI_13_def HI_17_def HI_95_def
  HI_SECOND_ADJUSTMENT_THRESHOLD_def HI_85_def HI_87_def HEAT_INDEX_THRESHOLD_def
  TWO_def FOUR_def FIVE_def TEN_def ZERO_def

lemma hi_90_50: "calculate_heat_index 90 (Some 50) = Some 94.6"
  by (simp add: calculate_heat_index_def hi_consts as_decimal_def quantize_tenth_ceiling_def Let_def)

lemma hi_70_50: "calculate_heat_index 70 (Some 50) = Some 69.6"
  by (simp add: calculate_heat_index_def hi_consts as_decimal_def quantize_tenth_ceiling_def Let_def)

lemma hi_69_50: "calculate_heat_index 69 (Some 50) = None"
  by (simp add: calculate_heat_index_def hi_consts)

lemma V25: "(10 powr (0.16::real)) ^ 25 = 10 ^ 4"
proof -
  have "(10 powr (0.16::real)) ^ 25 = 10 powr (0.16 * 25)"
    by (simp add: powr_power)
  also have "\<dots> = 10 powr (4::real)" by simp
  also have "\<dots> = 10 ^ 4" by (simp add: powr_numeral)
  finally show ?thesis .
qed

lemma V_lower: "1.444 < 10 powr (0.16::real)"
proof (rule ccontr)
  assume "\<not> 1.444 < 10 powr (0.16::real)"
  then have "10 powr (0.16::real) \<le> 1.444" by simp
  then have "(10 powr (0.16::real)) ^ 25 \<le> 1.444 ^ 25"
    by (intro power_mono) simp_all
  also have "(1.444::real) ^ 25 < 10 ^ 4" by (simp add: power_divide)
  finally show False unfolding V25 by simp
qed

lemma V_upper: "10 powr (0.16::real) < 1.447"
proof (rule ccontr)
  assume "\<not> 10 powr (0.16::real) < 1.447"
  then have le: "1.447 \<le> 10 powr (0.16::real)" by simp
  have "(10::real) ^ 4 < 1.447 ^ 25" by (simp add: power_divide)
  also have "(1.447::real) ^ 25 \<le> (10 powr (0.16::real)) ^ 25"
    using le by (intro power_mono) simp_all
  finally show False unfolding V25 by simp
qed

lemmas wc_consts = WC_C1_def WC_C2_def WC_C3_def WC_C4_def WC_V_EXP_def WIND_CHILL_THRESHOLD_def
  ZERO_def

lemma quantize_tenth_ceiling_props:
  "x \<le> quantize_tenth_ceiling x" "quantize_tenth_ceiling x < x + 1 / 10"
  "\<exists>k::int. quantize_tenth_ceiling x = of_int k / 10"
proof -
  have "x * 10 \<le> of_int \<lceil>x * 10\<rceil>" by (rule le_of_int_ceiling)
  then show "x \<le> quantize_tenth_ceiling x" by (simp add: quantize_tenth_ceiling_def)
  have "of_int \<lceil>x * 10\<rceil> < x * 10 + 1" by linarith
  then show "quantize_tenth_ceiling x < x + 1 / 10" by (simp add: quantize_tenth_ceiling_def)
  show "\<exists>k::int. quantize_tenth_ceiling x = of_int k / 10"
    unfolding quantize_tenth_ceiling_def by blast
qed

lemma quantize_tenth_floor_props:
  "quantize_tenth_floor x \<le> x" "x - 1 / 10 < quantize_tenth_floor x"
proof -
  have "of_int \<lfloor>x * 10\<rfloor> \<le> x * 10" by (rule of_int_floor_le)
  then show "quantize_tenth_floor x \<le> x" by (simp add: quantize_tenth_floor_def)
  have "x * 10 - 1 < of_int \<lfloor>x * 10\<rfloor>" by linarith
  then show "x - 1 / 10 < quantize_tenth_floor x" by (simp add: quantize_tenth_floor_def)
qed

lemma heat_index_below_threshold:
  "T < 70 \<Longrightarrow> calculate_heat_index T RH = None"
  by (simp add: calculate_heat_index_def HEAT_INDEX_THRESHOLD_def)

lemma abs_max_abs: "abs_max d = \<bar>d\<bar>"
  by (simp add: abs_max_def max_def)

lemma heat_index_simple_case:
  assumes "70 \<le> T" and "heat_index_simple_average T (as_decimal RH) < 80"
  shows "calculate_heat_index T RH
         = Some (quantize_tenth_ceiling (heat_index_simple_average T (as_decimal RH)))"
  using assms
  by (simp add: calculate_heat_index_def heat_index_simple_average_def hi_consts Let_def)

lemma heat_index_regression_case:
  assumes "70 \<le> T" and "80 \<le> heat_index_simple_average T (as_decimal RH)"
  shows "calculate_heat_index T RH
         = Some (quantize_tenth_ceiling
                   (heat_index_regression T (as_decimal RH)
                    + heat_index_correction T (as_decimal RH)))"
  using assms
  by (simp add: calculate_heat_index_def heat_index_simple_average_def
      heat_index_regression_def heat_index_correction_def hi_consts Let_def abs_max_abs
      algebra_simps)

lemma hi_100_50: "calculate_heat_index 100 (Some 50) = Some 118.4"
  by (simp add: calculate_heat_index_def hi_consts as_decimal_def quantize_tenth_ceiling_def Let_def)

lemma hi_85_90: "calculate_heat_index 85 (Some 90) = Some 101.8"
  by (simp add: calculate_heat_index_def hi_consts as_decimal_def quantize_tenth_ceiling_def Let_def)

lemma hi_95_10: "calculate_heat_index 95 (Some 10) = Some 89.5"
  by (simp add: calculate_heat_index_def hi_consts as_decimal_def quantize_tenth_ceiling_def
      Let_def abs_max_def)

text \<open>
  C2, as stated, fails: the heat index of 90 degrees at 50 percent humidity is not 86.4.
\<close>

theorem C2_heat_index_counterexample:
  "calculate_heat_index 90 (Some 50) \<noteq> Some 86.4"
  by (simp add: calculate_heat_index_def hi_consts as_decimal_def quantize_tenth_ceiling_def Let_def)

text \<open>
  C2, amended: the heat index is absent for every temperature strictly below 70.  From 70
  upwards it is the unrounded value rounded up to one decimal, where the unrounded value is
  the average of the simple formula and the temperature when that average is below 80, and
  otherwise the regression plus its correction for low or high humidity; rounding up gives
  the one multiple of one tenth that lies in \<open>[x, x + 1/10)\<close>.  The heat index of 69 at 50
  percent is absent, that of 90 at 50 percent is 94.6; that of 70 at 50 percent is 69.6
  (unrounded 69.525) and that of 100 at 50 percent is 118.4 (unrounded 118.3158115), so the
  rounding is upwards and not to the nearest tenth; that of 85 at 90 percent is 101.8 and
  that of 95 at 10 percent is 89.5, where the corrections apply.
\<close>

theorem C2_heat_index_amended:
  "(\<forall>T RH. T < 70 \<longrightarrow> calculate_heat_index T RH = None)
   \<and> (\<forall>T RH. 70 \<le> T \<and> heat_index_simple_average T (as_decimal RH) < 80 \<longrightarrow>
         calculate_heat_index T RH
           = Some (quantize_tenth_ceiling (heat_index_simple_average T (as_decimal RH))))
   \<and> (\<forall>T RH. 70 \<le> T \<and> 80 \<le> heat_index_simple_average T (as_decimal RH) \<longrightarrow>
         calculate_heat_index T RH
           = Some (quantize_tenth_ceiling
                     (heat_index_regression T (as_decimal RH)
                      + heat_index_correction T (as_decimal RH))))
   \<and> (\<forall>x. x \<le> quantize_tenth_ceiling x \<and> quantize_tenth_ceiling x < x + 1 / 10
         \<and> (\<exists>k::int. quantize_tenth_ceiling x = of_int k / 10))
   \<and> calculate_heat_index 69 (Some 50) = None
   \<and> calculate_heat_index 90 (Some 50) = Some 94.6
   \<and> calculate_heat_index 70 (Some 50) = Some 69.6
   \<and> calculate_heat_index 100 (Some 50) = Some 118.4
   \<and> calculate_heat_index 85 (Some 90) = Some 101.8
   \<and> calculate_heat_index 95 (Some 10) = Some 89.5"
  using heat_index_below_threshold heat_index_simple_case heat_index_regression_case
    quantize_tenth_ceiling_props hi_69_50 hi_90_50 hi_70_50 hi_100_50 hi_85_90 hi_95_10
  by (intro conjI allI impI) auto

theorem C2_heat_index_amended_witness:
  "(65::real) < 70 \<and> calculate_heat_index 65 (Some 40) = None
   \<and> (70::real) \<le> 70 \<and> heat_index_simple_average 70 (as_decimal (Some 50)) < 80
   \<and> calculate_heat_index 70 (Some 50)
       = Some (quantize_tenth_ceiling (heat_index_simple_average 70 (as_decimal (Some 50))))
   \<and> quantize_tenth_ceiling (heat_index_simple_average 70 (as_decimal (Some 50))) = 69.6
   \<and> (70::real) \<le> 90 \<and> 80 \<le> heat_index_simple_average 90 (as_decimal (Some 50))
   \<and> calculate_heat_index 90 (Some 50)
       = Some (quantize_tenth_ceiling
                 (heat_index_regression 90 (as_decimal (Some 50))
                  + heat_index_correction 90 (as_decimal (Some 50))))
   \<and> quantize_tenth_ceiling
         (heat_index_regression 90 (as_decimal (Some 50))
          + heat_index_correction 90 (as_decimal (Some 50))) = 94.6"
proof -
  have a: "(65::real) < 70" by simp
  have b: "(70::real) \<le> 70 \<and> heat_index_simple_average 70 (as_decimal (Some 50)) < 80"
    by (simp add: heat_index_simple_average_def as_decimal_def)
  have c: "(70::real) \<le> 90 \<and> 80 \<le> heat_index_simple_average 90 (as_decimal (Some 50))"
    by (simp add: heat_index_simple_average_def as_decimal_def)
  have a': "calculate_heat_index 65 (Some 40) = None"
    by (rule C2_heat_index_amended [THEN conjunct1, rule_format, OF a])
  have b': "calculate_heat_index 70 (Some 50)
      = Some (quantize_tenth_ceiling (heat_index_simple_average 70 (as_decimal (Some 50))))"
    by (rule C2_heat_index_amended [THEN conjunct2, THEN conjunct1, rule_format, OF b])
  have c': "calculate_heat_index 90 (Some 50)
      = Some (quantize_tenth_ceiling
                (heat_index_regression 90 (as_decimal (Some 50))
                 + heat_index_correction 90 (as_decimal (Some 50))))"
    by (rule C2_heat_index_amended
        [THEN conjunct2, THEN conjunct2, THEN conjunct1, rule_format, OF c])
  have d: "quantize_tenth_ceiling (heat_index_simple_average 70 (as_decimal (Some 50))) = 69.6"
    by (simp add: heat_index_simple_average_def as_decimal_def quantize_tenth_ceiling_def)
  have e: "quantize_tenth_ceiling
         (heat_index_regression 90 (as_decimal (Some 50))
          + heat_index_correction 90 (as_decimal (Some 50))) = 94.6"
    by (simp add: heat_index_regression_def heat_index_correction_def as_decimal_def
        quantize_tenth_ceiling_def)
  from a a' b b' c c' d e show ?thesis by simp
qed

lemma wind_chill_above_threshold:
  "40 < T \<Longrightarrow> calculate_wind_chill T WS = Inr None"
  by (simp add: calculate_wind_chill_def WIND_CHILL_THRESHOLD_def)

lemma wind_chill_no_wind:
  "T \<le> 40 \<Longrightarrow> as_decimal WS = 0 \<Longrightarrow> calculate_wind_chill T WS = Inr (Some T)"
  by (simp add: calculate_wind_chill_def WIND_CHILL_THRESHOLD_def ZERO_def)

lemma wind_chill_regression_case:
  assumes "T \<le> 40" "0 < as_decimal WS"
  shows "calculate_wind_chill T WS =
    Inr (Some (min T (quantize_tenth_floor (wind_chill_regression T (as_decimal WS)))))"
  using assms
  by (simp add: calculate_wind_chill_def WIND_CHILL_THRESHOLD_def ZERO_def decimal_power_def
      wind_chill_regression_def Let_def min_def)

lemma wind_chill_clamped:
  assumes "calculate_wind_chill T WS = Inr (Some v)"
  shows "v \<le> T"
  using assms
  by (auto simp: calculate_wind_chill_def Let_def decimal_power_def split: if_splits)

lemma wind_chill_30_10: "calculate_wind_chill 30 (Some 10) = Inr (Some 21.2)"
proof -
  let ?V = "10 powr (0.16::real)"
  have r: "wind_chill_regression 30 10 = 54.385 - 22.925 * ?V"
    by (simp add: wind_chill_regression_def wc_consts algebra_simps)
  have "212 \<le> (54.385 - 22.925 * ?V) * 10" using V_upper by simp
  moreover have "(54.385 - 22.925 * ?V) * 10 < 213" using V_lower by simp
  ultimately have "\<lfloor>(54.385 - 22.925 * ?V) * 10\<rfloor> = 212" by linarith
  then have "quantize_tenth_floor (wind_chill_regression 30 10) = 21.2"
    by (simp add: quantize_tenth_floor_def r)
  moreover have "calculate_wind_chill 30 (Some 10) =
    Inr (Some (min 30 (quantize_tenth_floor (wind_chill_regression 30 (as_decimal (Some 10))))))"
    by (rule wind_chill_regression_case) (simp_all add: as_decimal_def)
  ultimately show ?thesis by (simp add: as_decimal_def)
qed

text \<open>
  C4: the wind chill is absent for every temperature strictly above 40; at a temperature
  of at most 40 it is the temperature itself when the wind speed is 0, and for a positive
  wind speed it is the regression value rounded down to one decimal and clamped to the
  temperature; a returned value never exceeds the temperature; the wind chill of 50 at
  10 mph is absent and that of 30 at 10 mph is 21.2, which is at most 30.  Wind speeds are
  magnitudes: a negative one is outside the domain of the regression and raises
  \<open>InvalidOperation\<close>.
\<close>

theorem C4_wind_chill:
  "(\<forall>T WS. 40 < T \<longrightarrow> calculate_wind_chill T WS = Inr None)
   \<and> (\<forall>T WS. T \<le> 40 \<and> as_decimal WS = 0 \<longrightarrow> calculate_wind_chill T WS = Inr (Some T))
   \<and> (\<forall>T WS. T \<le> 40 \<and> 0 < as_decimal WS \<longrightarrow>
         calculate_wind_chill T WS =
           Inr (Some (min T (quantize_tenth_floor (wind_chill_regression T (as_decimal WS))))))
   \<and> (\<forall>x. quantize_tenth_floor x \<le> x \<and> x - 1 / 10 < quantize_tenth_floor x)
   \<and> (\<forall>T WS v. calculate_wind_chill T WS = Inr (Some v) \<longrightarrow> v \<le> T)
   \<and> calculate_wind_chill 50 (Some 10) = Inr None
   \<and> calculate_wind_chill 30 (Some 10) = Inr (Some 21.2)
   \<and> (21.2::real) \<le> 30"
proof -
  have "calculate_wind_chill 50 (Some 10) = Inr None"
    by (rule wind_chill_above_threshold) simp
  then show ?thesis
    using wind_chill_above_threshold wind_chill_no_wind wind_chill_regression_case
      quantize_tenth_floor_props wind_chill_clamped wind_chill_30_10
    by (intro conjI allI impI) auto
qed

theorem C4_wind_chill_witness:
  "(40::real) < 50 \<and> calculate_wind_chill 50 (Some 10) = Inr None
   \<and> (30::real) \<le> 40 \<and> as_decimal None = 0 \<and> calculate_wind_chill 30 None = Inr (Some 30)
   \<and> 0 < as_decimal (Some 10) \<and> calculate_wind_chill 30 (Some 10) = Inr (Some 21.2)
   \<and> (21.2::real) \<le> 30"
proof -
  have a: "as_decimal None = 0" "0 < as_decimal (Some 10)" by (simp_all add: as_decimal_def)
  have "calculate_wind_chill 30 None = Inr (Some 30)"
    using C4_wind_chill a(1) by simp
  then show ?thesis using C4_wind_chill a by simp
qed

section \<open>Properties of the rolling ten-minute wind average\<close>

lemma wind_step_long_sample:
  assumes "py_int (snd (snd (snd s))) > 10"
  shows "wind_step st s = None"
  using assms by (cases s) (simp add: wind_step_def Let_def)

lemma wind_loop_long_sample:
  assumes "s \<in> set records" and "py_int (snd (snd (snd s))) > 10"
  shows "wind_loop st records = None"
  using assms
proof (induction records arbitrary: st)
  case Nil
  then show ?case by simp
next
  case (Cons r records)
  show ?case
  proof (cases "wind_step st r")
    case None
    then show ?thesis by simp
  next
    case (Some st')
    have "s \<noteq> r"
      using Some wind_step_long_sample [OF Cons.prems(2), of st] by auto
    with Cons.prems have "s \<in> set records" by simp
    then have "wind_loop st' records = None" using Cons.prems(2) by (rule Cons.IH)
    with Some show ?thesis by simp
  qed
qed

lemma set_deque_extend: "set (deque_extend q xs) \<subseteq> set q \<union> set xs"
proof -
  have "set (drop (length (q @ xs) - 10) (q @ xs)) \<subseteq> set (q @ xs)"
    by (rule set_drop_subset)
  then show ?thesis by (simp add: deque_extend_def Let_def)
qed

lemma sum_list_zeros: "\<forall>x \<in> set xs. x = (0::real) \<Longrightarrow> sum_list xs = 0"
  by (induction xs) simp_all

lemma wind_step_result:
  assumes "wind_step st (ws, d, ts, mc) = Some st'"
  shows "speed_queue st' =
      deque_extend (speed_queue st) (replicate (nat (py_int mc)) (as_decimal ws))"
    and "current_max st' = current_max st
      \<or> current_max st' =
          sum_list (deque_extend (speed_queue st)
            (replicate (nat (py_int mc)) (as_decimal ws))) / 10"
  using assms by (auto simp: wind_step_def Let_def split: if_splits)

lemma wind_step_calm:
  assumes "calm st" and "as_decimal (fst s) = 0" and "wind_step st s = Some st'"
  shows "calm st'"
proof -
  obtain ws d ts mc where s: "s = (ws, d, ts, mc)" by (cases s) auto
  let ?sq = "deque_extend (speed_queue st) (replicate (nat (py_int mc)) (as_decimal ws))"
  have ws: "as_decimal ws = 0" using assms(2) s by simp
  have "set ?sq \<subseteq> set (speed_queue st) \<union> set (replicate (nat (py_int mc)) (as_decimal ws))"
    by (rule set_deque_extend)
  then have z: "\<forall>x \<in> set ?sq. x = 0"
    using assms(1) ws by (auto simp: calm_def)
  then have sum0: "sum_list ?sq = 0" by (rule sum_list_zeros)
  from assms(3) have step: "wind_step st (ws, d, ts, mc) = Some st'" by (simp add: s)
  have q: "speed_queue st' = ?sq" using step by (rule wind_step_result(1))
  have "current_max st' = current_max st \<or> current_max st' = sum_list ?sq / 10"
    using step by (rule wind_step_result(2))
  then have "current_max st' = 0" using assms(1) sum0 by (auto simp: calm_def)
  with q z show ?thesis by (simp add: calm_def)
qed

lemma wind_loop_calm:
  assumes "calm st" and "\<forall>s \<in> set records. as_decimal (fst s) = 0"
    and "wind_loop st records = Some st'"
  shows "calm st'"
  using assms
proof (induction records arbitrary: st)
  case Nil
  then show ?case by simp
next
  case (Cons r records)
  from Cons.prems(3) obtain st1 where st1: "wind_step st r = Some st1"
    and rest: "wind_loop st1 records = Some st'"
    by (auto split: option.splits)
  have "as_decimal (fst r) = 0" using Cons.prems(2) by simp
  with Cons.prems(1) have "calm st1" using st1 by (rule wind_step_calm)
  moreover have "\<forall>s \<in> set records. as_decimal (fst s) = 0" using Cons.prems(2) by simp
  ultimately show ?case using rest by (rule Cons.IH)
qed

lemmas wind_eval = calculate_10_minute_wind_average_def wind_step_def initial_wind_state_def
  deque_extend_def py_int_def as_decimal_def ZERO_def most_common_first_def Let_def

lemma length_10_list:
  assumes "length ts = 10"
  obtains t1 t2 t3 t4 t5 t6 t7 t8 t9 t10 where "ts = [t1, t2, t3, t4, t5, t6, t7, t8, t9, t10]"
proof -
  from assms have "length ts = Suc (Suc (Suc (Suc (Suc (Suc (Suc (Suc (Suc (Suc 0)))))))))"
    by simp
  then show ?thesis using that by (auto simp: length_Suc_conv)
qed

lemma length_9_list:
  assumes "length ts = 9"
  obtains t1 t2 t3 t4 t5 t6 t7 t8 t9 where "ts = [t1, t2, t3, t4, t5, t6, t7, t8, t9]"
proof -
  from assms have "length ts = Suc (Suc (Suc (Suc (Suc (Suc (Suc (Suc (Suc 0))))))))"
    by simp
  then show ?thesis using that by (auto simp: length_Suc_conv)
qed

lemma ten_samples:
  assumes "length ts = 10"
  shows "calculate_10_minute_wind_average (map (\<lambda>t. (Some 5, d, t, 1)) ts)
         = (Some 5, Some d, Some (hd ts), Some (last ts))"
proof -
  from assms obtain t1 t2 t3 t4 t5 t6 t7 t8 t9 t10
    where ts: "ts = [t1, t2, t3, t4, t5, t6, t7, t8, t9, t10]" by (rule length_10_list)
  show ?thesis unfolding ts by (simp add: wind_eval)
qed

lemma nine_samples:
  assumes "length ts = 9"
  shows "calculate_10_minute_wind_average (map (\<lambda>t. (Some 5, d, t, 1)) ts)
         = (None, None, None, None)"
proof -
  from assms obtain t1 t2 t3 t4 t5 t6 t7 t8 t9
    where ts: "ts = [t1, t2, t3, t4, t5, t6, t7, t8, t9]" by (rule length_9_list)
  show ?thesis unfolding ts by (simp add: wind_eval)
qed

lemma long_sample_all_absent:
  assumes "s \<in> set records" and "py_int (snd (snd (snd s))) > 10"
  shows "calculate_10_minute_wind_average records = (None, None, None, None)"
proof -
  from assms have "wind_loop initial_wind_state records = None" by (rule wind_loop_long_sample)
  then show ?thesis by (simp add: calculate_10_minute_wind_average_def)
qed

text \<open>
  Claim C6.  Over 10 samples of one minute each, all with speed 5 and the same direction,
  the function returns the average 5, that direction, the timestamp of the first sample as
  start and the timestamp of the tenth as end.  Over 9 such samples the window never fills
  and all four results are absent.  An input that contains a sample covering more than 10
  minutes gives all four results absent.
\<close>

theorem C6_rolling_wind_average:
  "(\<forall>ts d. length ts = 10 \<longrightarrow>
       calculate_10_minute_wind_average (map (\<lambda>t. (Some 5, d, t, 1)) ts)
         = (Some 5, Some d, Some (hd ts), Some (last ts)))
   \<and> (\<forall>ts d. length ts = 9 \<longrightarrow>
       calculate_10_minute_wind_average (map (\<lambda>t. (Some 5, d, t, 1)) ts)
         = (None, None, None, None))
   \<and> (\<forall>records s. s \<in> set records \<and> py_int (snd (snd (snd s))) > 10 \<longrightarrow>
       calculate_10_minute_wind_average records = (None, None, None, None))"
  using ten_samples nine_samples long_sample_all_absent by blast

theorem C6_rolling_wind_average_witness:
  "calculate_10_minute_wind_average
     (map (\<lambda>t. (Some 5, ''N'', t, 1)) [100, 101, 102, 103, 104, 105, 106, 107, 108, 109])
     = (Some 5, Some ''N'', Some 100, Some 109)
   \<and> calculate_10_minute_wind_average
     (map (\<lambda>t. (Some 5, ''N'', t, 1)) [100, 101, 102, 103, 104, 105, 106, 107, 108])
     = (None, None, None, None)
   \<and> calculate_10_minute_wind_average [(Some 5, ''N'', 100, 1), (Some 7, ''E'', 130, 30)]
     = (None, None, None, None)"
proof -
  let ?ten = "[100, 101, 102, 103, 104, 105, 106, 107, 108, 109 :: int]"
  let ?nine = "[100, 101, 102, 103, 104, 105, 106, 107, 108 :: int]"
  let ?long = "(Some 7, ''E'', 130 :: int, 30 :: real)"
  let ?recs = "[(Some 5, ''N'', 100, 1), ?long]"
  have a: "length ?ten = 10" by simp
  have b: "length ?nine = 9" by simp
  have c: "?long \<in> set ?recs \<and> py_int (snd (snd (snd ?long))) > 10"
    by (simp add: py_int_def)
  have "calculate_10_minute_wind_average (map (\<lambda>t. (Some 5, ''N'', t, 1)) ?ten)
      = (Some 5, Some ''N'', Some (hd ?ten), Some (last ?ten))"
    by (rule C6_rolling_wind_average [THEN conjunct1, rule_format, OF a])
  moreover have "calculate_10_minute_wind_average (map (\<lambda>t. (Some 5, ''N'', t, 1)) ?nine)
      = (None, None, None, None)"
    by (rule C6_rolling_wind_average [THEN conjunct2, THEN conjunct1, rule_format, OF b])
  moreover have "calculate_10_minute_wind_average ?recs = (None, None, None, None)"
    by (rule C6_rolling_wind_average [THEN conjunct2, THEN conjunct2, rule_format, OF c])
  ultimately show ?thesis by simp
qed

text \<open>
  Claim C10.  When every sample has wind speed 0 (or no wind speed, which counts as 0),
  \<open>calculate_10_minute_wind_average\<close> returns \<open>(None, None, None, None)\<close>, also when the
  window of 10 slots fills: the average of a window of zeros is 0, which is not greater than
  the running maximum that starts at 0, so no window is ever recorded and the final test
  \<open>current_max > ZERO\<close> fails.  The result is the one of a window that never fills.
\<close>

theorem C10_calm_period_not_reported:
  assumes "\<forall>s \<in> set records. as_decimal (fst s) = 0"
  shows "calculate_10_minute_wind_average records = (None, None, None, None)"
proof (cases "wind_loop initial_wind_state records")
  case None
  then show ?thesis by (simp add: calculate_10_minute_wind_average_def)
next
  case (Some st)
  have "calm (initial_wind_state :: 'a wind_state)"
    by (simp add: calm_def initial_wind_state_def ZERO_def)
  then have "calm st" using assms Some by (rule wind_loop_calm)
  with Some show ?thesis
    by (simp add: calculate_10_minute_wind_average_def calm_def ZERO_def)
qed

theorem C10_calm_period_witness:
  "list_all (\<lambda>s. as_decimal (fst s) = 0)
     (map (\<lambda>t. (Some 0, ''N'', t, 1 :: real)) [1, 2, 3, 4, 5, 6, 7, 8, 9, 10 :: int])
   \<and> (\<exists>st. wind_loop initial_wind_state
          (map (\<lambda>t. (Some 0, ''N'', t, 1 :: real)) [1, 2, 3, 4, 5, 6, 7, 8, 9, 10 :: int]) = Some st
        \<and> length (speed_queue st) = 10)
   \<and> calculate_10_minute_wind_average
        (map (\<lambda>t. (Some 0, ''N'', t, 1 :: real)) [1, 2, 3, 4, 5, 6, 7, 8, 9, 10 :: int])
      = (None, None, None, None)"
proof -
  let ?recs = "map (\<lambda>t. (Some 0, ''N'', t, 1 :: real)) [1, 2, 3, 4, 5, 6, 7, 8, 9, 10 :: int]"
  have a: "\<forall>s \<in> set ?recs. as_decimal (fst s) = 0" by (simp add: as_decimal_def)
  have b: "\<exists>st. wind_loop initial_wind_state ?recs = Some st \<and> length (speed_queue st) = 10"
    by (simp add: wind_step_def initial_wind_state_def deque_extend_def py_int_def
        as_decimal_def ZERO_def Let_def)
  have c: "calculate_10_minute_wind_average ?recs = (None, None, None, None)"
    using a by (rule C10_calm_period_not_reported)
  show ?thesis
  proof (intro conjI)
    show "list_all (\<lambda>s. as_decimal (fst s) = 0) ?recs" by (simp add: as_decimal_def)
    show "\<exists>st. wind_loop initial_wind_state ?recs = Some st \<and> length (speed_queue st) = 10"
      by (rule b)
    show "calculate_10_minute_wind_average ?recs = (None, None, None, None)" by (rule c)
  qed
qed

section \<open>Properties of the binary record codec\<close>

lemma calcsize_DAILY_SUMMARY: "calcsize DAILY_SUMMARY_FORMAT = DAILY_SUMMARY_LENGTH"
  by (simp add: calcsize_def sum_list_replicate DAILY_SUMMARY_FORMAT_def DAILY_SUMMARY_LENGTH_def)

lemma calcsize_WLK: "calcsize RECORD_FORMAT_WLK = RECORD_LENGTH_WLK"
  by (simp add: calcsize_def sum_list_replicate RECORD_FORMAT_WLK_def RECORD_LENGTH_WLK_def)

lemma calcsize_DOWNLOAD: "calcsize RECORD_FORMAT_DOWNLOAD = RECORD_LENGTH_DOWNLOAD"
  by (simp add: calcsize_def sum_list_replicate RECORD_FORMAT_DOWNLOAD_def RECORD_LENGTH_DOWNLOAD_def)

lemma calcsize_LOOP2: "calcsize LOOP2_RECORD_FORMAT = RECORD_LENGTH"
  by (simp add: calcsize_def sum_list_replicate LOOP2_RECORD_FORMAT_def RECORD_LENGTH_def)

lemma length_unpack_fields:
  "length (unpack_fields fmt buffer) = length (filter (\<lambda>c. c \<noteq> pad_x) fmt)"
  by (induction fmt buffer rule: unpack_fields.induct) simp_all

lemma fields_DAILY_SUMMARY:
  "length (unpack_fields DAILY_SUMMARY_FORMAT buffer) = 42"
  "length DAILY_SUMMARY_ATTRIBUTE_MAP = 42"
  by (simp_all add: length_unpack_fields DAILY_SUMMARY_FORMAT_def DAILY_SUMMARY_ATTRIBUTE_MAP_def)




lemma replicate_numeral_Cons: "replicate (numeral k) x = x # replicate (pred_numeral k) x"
  by (simp add: numeral_eq_Suc)

lemmas unpack_eval = replicate_numeral_Cons struct_unpack_from_def calcsize_def sum_list_replicate le_signed_def
  le_unsigned_def Let_def

lemma sample_unpacked:
  "struct_unpack_from DAILY_SUMMARY_FORMAT daily_summary_sample =
     Inr ([RInt 2, RInt 1440, RInt 123, RInt 32767] @ replicate 26 (RInt 0) @ [RInt 3]
          @ replicate 11 (RInt 0))"
  by (simp add: unpack_eval DAILY_SUMMARY_FORMAT_def daily_summary_sample_def
      )

lemma attribute_loop_preserves:
  assumes "attribute_loop wanted amap ps kw = Inr kw'"
    and "\<And>j w. (j, w) \<in> set ps \<Longrightarrow> wanted j \<Longrightarrow> fst (amap ! j) \<noteq> k"
  shows "kw' k = kw k"
  using assms
proof (induction ps arbitrary: kw)
  case Nil
  then show ?case by simp
next
  case (Cons p ps)
  obtain j w where p: "p = (j, w)" by (cases p)
  have rest: "fst (amap ! j) \<noteq> k" if "(j, w) \<in> set ps" "wanted j" for j w
    using Cons.prems(2) [of j w] that by simp
  show ?case
  proof (cases "wanted j")
    case False
    with Cons.prems(1) p have "attribute_loop wanted amap ps kw = Inr kw'" by simp
    then show ?thesis using rest by (rule Cons.IH)
  next
    case True
    obtain k' t s where a: "amap ! j = (k', t, s)" by (cases "amap ! j")
    have "fst (amap ! j) \<noteq> k" using Cons.prems(2) [of j w] p True by simp
    then have k': "k' \<noteq> k" using a by simp
    from Cons.prems(1) p True a
    obtain x where "attribute_loop wanted amap ps (kw(k' \<mapsto> x)) = Inr kw'"
      by (auto split: if_splits sum.splits)
    then have "kw' k = (kw(k' \<mapsto> x)) k" using rest by (rule Cons.IH)
    then show ?thesis using k' by simp
  qed
qed

lemma attribute_loop_field:
  assumes "attribute_loop wanted amap ps kw = Inr kw'"
    and "(i, v) \<in> set ps" and "distinct (map fst ps)" and "wanted i"
    and "\<And>j w. (j, w) \<in> set ps \<Longrightarrow> wanted j \<Longrightarrow> j \<noteq> i \<Longrightarrow> fst (amap ! j) \<noteq> fst (amap ! i)"
  shows "field_decoded kw' (amap ! i) v"
  using assms
proof (induction ps arbitrary: kw)
  case Nil
  then show ?case by simp
next
  case (Cons p ps)
  obtain j w where p: "p = (j, w)" by (cases p)
  obtain k t s where a: "amap ! i = (k, t, s)" by (cases "amap ! i")
  have dist: "distinct (map fst ps)" and notin: "j \<notin> fst ` set ps"
    using Cons.prems(3) p by simp_all
  have rest: "fst (amap ! j) \<noteq> fst (amap ! i)"
    if "(j, w) \<in> set ps" "wanted j" "j \<noteq> i" for j w
    using Cons.prems(5) [of j w] that by simp
  show ?case
  proof (cases "j = i")
    case True
    have "(i, v) \<notin> set ps" using notin True by force
    then have w: "w = v" using Cons.prems(2) p True by simp
    have keep: "\<And>j w. (j, w) \<in> set ps \<Longrightarrow> wanted j \<Longrightarrow> fst (amap ! j) \<noteq> k"
    proof -
      fix j' w' assume in_ps: "(j', w') \<in> set ps" and wj: "wanted j'"
      have "j' \<noteq> i" using in_ps notin True by force
      with in_ps wj have "fst (amap ! j') \<noteq> fst (amap ! i)" by (rule rest)
      then show "fst (amap ! j') \<noteq> k" using a by simp
    qed
    show ?thesis
    proof (cases "equals_sentinel v s")
      case True
      with Cons.prems(1) p \<open>j = i\<close> w a Cons.prems(4)
      have "attribute_loop wanted amap ps (kw(k \<mapsto> PyNone)) = Inr kw'"
        by (auto split: if_splits)
      then have "kw' k = (kw(k \<mapsto> PyNone)) k" using keep by (rule attribute_loop_preserves)
      then show ?thesis using True a by (simp add: field_decoded_def)
    next
      case False
      with Cons.prems(1) p \<open>j = i\<close> w a Cons.prems(4)
      obtain x where x: "t v = Inr x"
        and loop: "attribute_loop wanted amap ps (kw(k \<mapsto> x)) = Inr kw'"
        by (auto split: if_splits sum.splits)
      from loop have "kw' k = (kw(k \<mapsto> x)) k" using keep by (rule attribute_loop_preserves)
      then show ?thesis using False a x by (simp add: field_decoded_def)
    qed
  next
    case False
    then have in_ps: "(i, v) \<in> set ps" using Cons.prems(2) p by simp
    from Cons.prems(1) p obtain kw1 where "attribute_loop wanted amap ps kw1 = Inr kw'"
      by (cases "amap ! j") (auto split: if_splits sum.splits)
    then show ?thesis using in_ps dist Cons.prems(4) rest by (rule Cons.IH)
  qed
qed

lemma attribute_loop_enumerate:
  assumes "attribute_loop wanted amap (enumerate 0 arguments) kw = Inr kw'"
    and "i < length arguments" and "wanted i"
    and "\<And>j. j < length arguments \<Longrightarrow> wanted j \<Longrightarrow> j \<noteq> i
           \<Longrightarrow> fst (amap ! j) \<noteq> fst (amap ! i)"
  shows "field_decoded kw' (amap ! i) (arguments ! i)"
proof -
  have "(i, arguments ! i) \<in> set (enumerate 0 arguments)"
    using assms(2) by (simp add: in_set_enumerate_eq)
  moreover have "distinct (map fst (enumerate 0 arguments))" by simp
  moreover have "\<And>j w. (j, w) \<in> set (enumerate 0 arguments) \<Longrightarrow> wanted j \<Longrightarrow> j \<noteq> i
      \<Longrightarrow> fst (amap ! j) \<noteq> fst (amap ! i)"
    using assms(4) by (simp add: in_set_enumerate_eq)
  ultimately show ?thesis using assms(1,3) attribute_loop_field by blast
qed

lemma field_decoded_cong:
  assumes "field_decoded record a v" and "record' (fst a) = record (fst a)"
  shows "field_decoded record' a v"
  using assms by (cases a) (auto simp: field_decoded_def split: sum.splits if_splits)

lemma wanted_names_distinct:
  assumes "distinct (extra @ wanted_names wanted amap n)"
    and "i < n" "wanted i"
  shows "fst (amap ! i) \<notin> set extra"
    and "\<And>j. j < n \<Longrightarrow> wanted j \<Longrightarrow> j \<noteq> i \<Longrightarrow> fst (amap ! j) \<noteq> fst (amap ! i)"
proof -
  let ?f = "\<lambda>j. fst (amap ! j)"
  let ?xs = "filter wanted [0..<n]"
  have i: "i \<in> set ?xs" using assms(2,3) by simp
  then have "?f i \<in> set (wanted_names wanted amap n)" by (simp add: wanted_names_def)
  then show "fst (amap ! i) \<notin> set extra" using assms(1) by auto
  have "distinct (map ?f ?xs)" using assms(1) by (simp add: wanted_names_def)
  then have inj: "inj_on ?f (set ?xs)" by (simp add: distinct_map)
  fix j assume "j < n" "wanted j" "j \<noteq> i"
  then have "j \<in> set ?xs" by simp
  with inj i \<open>j \<noteq> i\<close> show "fst (amap ! j) \<noteq> fst (amap ! i)" by (auto dest: inj_onD)
qed

lemma DAILY_SUMMARY_names:
  "distinct ([''date''] @ wanted_names daily_summary_wanted DAILY_SUMMARY_ATTRIBUTE_MAP 42)"
  by code_simp




lemma attribute_loop_succeeds:
  assumes "\<And>i v. (i, v) \<in> set ps \<Longrightarrow> wanted i
             \<Longrightarrow> i < length amap \<and> \<not> transform_raises (amap ! i) v"
  shows "\<exists>kw'. attribute_loop wanted amap ps kw = Inr kw'"
  using assms
proof (induction ps arbitrary: kw)
  case Nil
  then show ?case by simp
next
  case (Cons p ps)
  obtain j w where p: "p = (j, w)" by (cases p)
  have rest: "i < length amap \<and> \<not> transform_raises (amap ! i) v"
    if "(i, v) \<in> set ps" "wanted i" for i v
    using Cons.prems [of i v] that by simp
  have IH: "\<exists>kw'. attribute_loop wanted amap ps kw1 = Inr kw'" for kw1
    using rest by (rule Cons.IH)
  show ?case
  proof (cases "wanted j")
    case False
    then show ?thesis using IH [of kw] p by simp
  next
    case True
    obtain k t s where a: "amap ! j = (k, t, s)" by (cases "amap ! j")
    have j: "j < length amap" and nr: "\<not> transform_raises (amap ! j) w"
      using Cons.prems [of j w] p True by simp_all
    show ?thesis
    proof (cases "equals_sentinel w s")
      case True
      then show ?thesis using IH [of "kw(k \<mapsto> PyNone)"] p \<open>wanted j\<close> j a by simp
    next
      case False
      with nr a obtain x where x: "t w = Inr x"
        by (cases "t w") (simp_all add: transform_raises_def)
      then show ?thesis using IH [of "kw(k \<mapsto> x)"] p \<open>wanted j\<close> j a False by simp
    qed
  qed
qed

lemma attribute_loop_total:
  assumes len: "\<And>i. i < length arguments \<Longrightarrow> wanted i \<Longrightarrow> i < length amap"
    and names: "distinct (wanted_names wanted amap (length arguments))"
    and ok: "\<forall>i < length arguments. wanted i \<longrightarrow> \<not> transform_raises (amap ! i) (arguments ! i)"
  shows "\<exists>kwargs. attribute_loop wanted amap (enumerate 0 arguments) kw = Inr kwargs
           \<and> (\<forall>i < length arguments. wanted i \<longrightarrow>
                 field_decoded kwargs (amap ! i) (arguments ! i))"
proof -
  have "\<exists>kw'. attribute_loop wanted amap (enumerate 0 arguments) kw = Inr kw'"
  proof (rule attribute_loop_succeeds)
    fix i v assume "(i, v) \<in> set (enumerate 0 arguments)" and w: "wanted i"
    then have i: "i < length arguments" and v: "v = arguments ! i"
      by (simp_all add: in_set_enumerate_eq)
    show "i < length amap \<and> \<not> transform_raises (amap ! i) v"
      using len [OF i w] ok i w v by simp
  qed
  then obtain kwargs where loop: "attribute_loop wanted amap (enumerate 0 arguments) kw = Inr kwargs"
    by blast
  have "field_decoded kwargs (amap ! i) (arguments ! i)"
    if i: "i < length arguments" and w: "wanted i" for i
  proof -
    from names have d: "distinct ([] @ wanted_names wanted amap (length arguments))" by simp
    have "\<And>j. j < length arguments \<Longrightarrow> wanted j \<Longrightarrow> j \<noteq> i
        \<Longrightarrow> fst (amap ! j) \<noteq> fst (amap ! i)"
      using wanted_names_distinct(2) [OF d i w] by blast
    with loop i w show ?thesis by (rule attribute_loop_enumerate)
  qed
  with loop show ?thesis by blast
qed

lemma unpacked_length:
  assumes "struct_unpack_from fmt data = Inr arguments"
  shows "arguments = unpack_fields fmt data"
  using assms by (simp add: struct_unpack_from_def split: if_splits)




lemma unpacked_length_DAILY_SUMMARY:
  "struct_unpack_from DAILY_SUMMARY_FORMAT data = Inr arguments \<Longrightarrow> length arguments = 42"
  by (drule unpacked_length) (simp add: fields_DAILY_SUMMARY)




lemma DailySummary_field:
  assumes "DailySummary_from_bytes data y m d = Inr r"
    and "struct_unpack_from DAILY_SUMMARY_FORMAT data = Inr arguments"
    and "i < length arguments" and "daily_summary_wanted i"
  shows "field_decoded r (DAILY_SUMMARY_ATTRIBUTE_MAP ! i) (arguments ! i)"
proof -
  from assms(1,2) obtain kwargs date where
    loop: "attribute_loop daily_summary_wanted DAILY_SUMMARY_ATTRIBUTE_MAP
             (enumerate 0 arguments) Map.empty = Inr kwargs"
    and r: "r = kwargs(''date'' \<mapsto> date)"
    by (auto simp: DailySummary_from_bytes_def split: sum.splits)
  have n: "length arguments = 42" using assms(2) by (rule unpacked_length_DAILY_SUMMARY)
  note names = wanted_names_distinct [OF DAILY_SUMMARY_names, of i]
  have i: "i < 42" using assms(3) n by simp
  have other: "fst (DAILY_SUMMARY_ATTRIBUTE_MAP ! j) \<noteq> fst (DAILY_SUMMARY_ATTRIBUTE_MAP ! i)"
    if "j < length arguments" "daily_summary_wanted j" "j \<noteq> i" for j
    using names(2) [OF i assms(4), of j] that n by simp
  have "field_decoded kwargs (DAILY_SUMMARY_ATTRIBUTE_MAP ! i) (arguments ! i)"
    using loop assms(3,4) other by (rule attribute_loop_enumerate)
  moreover have "fst (DAILY_SUMMARY_ATTRIBUTE_MAP ! i) \<noteq> ''date''"
    using names(1) [OF i assms(4)] by simp
  then have "r (fst (DAILY_SUMMARY_ATTRIBUTE_MAP ! i)) = kwargs (fst (DAILY_SUMMARY_ATTRIBUTE_MAP ! i))"
    by (simp add: r)
  ultimately show ?thesis by (rule field_decoded_cong)
qed










lemma struct_unpack_from_short:
  "length data < calcsize fmt \<Longrightarrow> struct_unpack_from fmt data = Inl StructError"
  by (simp add: struct_unpack_from_def)

lemma DailySummary_short:
  assumes "length file_handle < DAILY_SUMMARY_LENGTH"
  shows "fst (DailySummary_load_from_wlk file_handle y m d) = Inl StructError"
proof -
  have "length (take DAILY_SUMMARY_LENGTH file_handle) < calcsize DAILY_SUMMARY_FORMAT"
    using assms by (simp add: calcsize_DAILY_SUMMARY)
  then show ?thesis
    by (simp add: DailySummary_load_from_wlk_def file_read_def DailySummary_from_bytes_def
        struct_unpack_from_short)
qed

lemma wlk_short:
  assumes "length file_handle < RECORD_LENGTH_WLK"
  shows "fst (ArchiveIntervalRecord_load_from_wlk file_handle y m d) = Inl StructError"
proof -
  have "length (take RECORD_LENGTH_WLK file_handle) < calcsize RECORD_FORMAT_WLK"
    using assms by (simp add: calcsize_WLK)
  then show ?thesis
    by (simp add: ArchiveIntervalRecord_load_from_wlk_def file_read_def
        ArchiveIntervalRecord_wlk_from_bytes_def struct_unpack_from_short)
qed

lemma download_short:
  assumes "length response_handle < RECORD_LENGTH_DOWNLOAD"
  shows "fst (ArchiveIntervalRecord_load_from_download response_handle mc) = Inl StructError"
proof -
  have "length (take RECORD_LENGTH_DOWNLOAD response_handle) < calcsize RECORD_FORMAT_DOWNLOAD"
    using assms by (simp add: calcsize_DOWNLOAD)
  then show ?thesis
    by (simp add: ArchiveIntervalRecord_load_from_download_def file_read_def
        ArchiveIntervalRecord_download_from_bytes_def struct_unpack_from_short)
qed

lemma loop2_short:
  assumes "length socket_file < RECORD_LENGTH"
  shows "fst (load_loop_2_from_connection socket_file) = Inl StructError"
proof -
  have "length (take RECORD_LENGTH socket_file) < calcsize LOOP2_RECORD_FORMAT"
    using assms by (simp add: calcsize_LOOP2)
  then show ?thesis
    by (simp add: load_loop_2_from_connection_def get_loop_2_arguments_def file_read_def
        loop_2_attributes_def struct_unpack_from_short)
qed

lemma DailySummary_front:
  "DailySummary_load_from_wlk file_handle y m d =
     (fst (DailySummary_load_from_wlk (take DAILY_SUMMARY_LENGTH file_handle) y m d),
      drop DAILY_SUMMARY_LENGTH file_handle)"
  by (simp add: DailySummary_load_from_wlk_def file_read_def)

lemma wlk_front:
  "ArchiveIntervalRecord_load_from_wlk file_handle y m d =
     (fst (ArchiveIntervalRecord_load_from_wlk (take RECORD_LENGTH_WLK file_handle) y m d),
      drop RECORD_LENGTH_WLK file_handle)"
  by (simp add: ArchiveIntervalRecord_load_from_wlk_def file_read_def)

lemma download_front:
  "ArchiveIntervalRecord_load_from_download response_handle mc =
     (fst (ArchiveIntervalRecord_load_from_download
             (take RECORD_LENGTH_DOWNLOAD response_handle) mc),
      drop RECORD_LENGTH_DOWNLOAD response_handle)"
  by (simp add: ArchiveIntervalRecord_load_from_download_def file_read_def)

lemma loop2_front:
  "load_loop_2_from_connection socket_file =
     (fst (load_loop_2_from_connection (take RECORD_LENGTH socket_file)),
      drop RECORD_LENGTH socket_file)"
  by (simp add: load_loop_2_from_connection_def get_loop_2_arguments_def file_read_def)

lemma sample_length: "length daily_summary_sample = 176"
  by (simp add: daily_summary_sample_def)

lemma sample_unpacked': 
  "struct_unpack_from DAILY_SUMMARY_FORMAT daily_summary_sample = Inr sample_arguments"
  by (simp add: sample_unpacked sample_arguments_def)

lemma sample_verified': "verify DAILY_SUMMARY_VERIFICATION_MAP sample_arguments = Inr ()"
  by (simp add: DAILY_SUMMARY_VERIFICATION_MAP_def sample_arguments_def nth_append)

lemma sample_no_raise_list:
  "list_all (\<lambda>i. daily_summary_wanted i \<longrightarrow>
       \<not> transform_raises (DAILY_SUMMARY_ATTRIBUTE_MAP ! i) (sample_arguments ! i)) [0..<42]"
  by code_simp

lemma sample_no_raise:
  "\<forall>i < length sample_arguments. daily_summary_wanted i \<longrightarrow>
       \<not> transform_raises (DAILY_SUMMARY_ATTRIBUTE_MAP ! i) (sample_arguments ! i)"
proof -
  have "length sample_arguments = 42" by (simp add: sample_arguments_def)
  then show ?thesis using sample_no_raise_list by (simp add: list_all_iff)
qed

lemma DAILY_SUMMARY_loop_total:
  assumes "struct_unpack_from DAILY_SUMMARY_FORMAT data = Inr arguments"
    and "\<forall>i < length arguments. daily_summary_wanted i \<longrightarrow>
           \<not> transform_raises (DAILY_SUMMARY_ATTRIBUTE_MAP ! i) (arguments ! i)"
  shows "\<exists>kwargs. attribute_loop daily_summary_wanted DAILY_SUMMARY_ATTRIBUTE_MAP
             (enumerate 0 arguments) kw = Inr kwargs
           \<and> (\<forall>i < length arguments. daily_summary_wanted i \<longrightarrow>
                 field_decoded kwargs (DAILY_SUMMARY_ATTRIBUTE_MAP ! i) (arguments ! i))"
proof (rule attribute_loop_total)
  have n: "length arguments = 42" using assms(1) by (rule unpacked_length_DAILY_SUMMARY)
  show "i < length DAILY_SUMMARY_ATTRIBUTE_MAP" if "i < length arguments" for i
    using that n by (simp add: fields_DAILY_SUMMARY)
  show "distinct (wanted_names daily_summary_wanted DAILY_SUMMARY_ATTRIBUTE_MAP (length arguments))"
    using DAILY_SUMMARY_names n by simp
  show "\<forall>i < length arguments. daily_summary_wanted i \<longrightarrow>
           \<not> transform_raises (DAILY_SUMMARY_ATTRIBUTE_MAP ! i) (arguments ! i)"
    by (rule assms(2))
qed

lemma sample_decodes:
  "\<exists>r. DailySummary_from_bytes daily_summary_sample 2020 1 1 = Inr r"
proof -
  obtain kwargs where "attribute_loop daily_summary_wanted DAILY_SUMMARY_ATTRIBUTE_MAP
             (enumerate 0 sample_arguments) Map.empty = Inr kwargs"
    using DAILY_SUMMARY_loop_total [OF sample_unpacked' sample_no_raise] by blast
  then show ?thesis
    by (simp add: DailySummary_from_bytes_def sample_unpacked' sample_verified' date_new_def
        date_fields_ok_def days_in_month_def)
qed








lemma struct_unpack_from_long:
  "calcsize fmt \<le> length data \<Longrightarrow> struct_unpack_from fmt data = Inr (unpack_fields fmt data)"
  by (simp add: struct_unpack_from_def)

lemma verify_not_struct: "verify vm arguments \<noteq> Inl StructError"
  by (induction vm arguments rule: verify.induct) simp_all

lemma WindDirection_call_not_struct: "WindDirection_call n \<noteq> Inl StructError"
  by (simp add: WindDirection_call_def split: option.splits)

lemma transforms_not_struct:
  "STRAIGHT_NUMBER v \<noteq> Inl StructError" "STRAIGHT_DECIMAL v \<noteq> Inl StructError"
  "TENTHS v \<noteq> Inl StructError" "HUNDREDTHS v \<noteq> Inl StructError"
  "THOUSANDTHS v \<noteq> Inl StructError" "WindDirection_lookup v \<noteq> Inl StructError"
  using WindDirection_call_not_struct
  by (auto simp: STRAIGHT_NUMBER_def STRAIGHT_DECIMAL_def TENTHS_def HUNDREDTHS_def
      THOUSANDTHS_def WindDirection_lookup_def split: raw.splits sum.splits)

lemma attribute_loop_not_struct:
  assumes "\<forall>a \<in> set amap. \<forall>v. fst (snd a) v \<noteq> Inl StructError"
  shows "attribute_loop wanted amap ps kw \<noteq> Inl StructError"
  using assms
proof (induction ps arbitrary: kw)
  case Nil
  then show ?case by simp
next
  case (Cons p ps)
  obtain j w where p: "p = (j, w)" by (cases p)
  have IH: "attribute_loop wanted amap ps kw1 \<noteq> Inl StructError" for kw1
    using Cons.prems by (rule Cons.IH)
  show ?case
  proof (cases "wanted j \<and> j < length amap")
    case False
    then show ?thesis using IH p by auto
  next
    case True
    obtain k t s where a: "amap ! j = (k, t, s)" by (cases "amap ! j")
    have "amap ! j \<in> set amap" using True by simp
    then have "t w \<noteq> Inl StructError" using Cons.prems a by force
    then show ?thesis using IH p True a by (auto split: sum.splits)
  qed
qed

lemma maps_not_struct:
  "\<forall>a \<in> set DAILY_SUMMARY_ATTRIBUTE_MAP. \<forall>v. fst (snd a) v \<noteq> Inl StructError"
  "\<forall>a \<in> set RECORD_ATTRIBUTE_MAP_WLK. \<forall>v. fst (snd a) v \<noteq> Inl StructError"
  "\<forall>a \<in> set RECORD_ATTRIBUTE_MAP_DOWNLOAD. \<forall>v. fst (snd a) v \<noteq> Inl StructError"
  "\<forall>a \<in> set LOOP2_RECORD_ATTRIBUTE_MAP. \<forall>v. fst (snd a) v \<noteq> Inl StructError"
  by (simp_all add: DAILY_SUMMARY_ATTRIBUTE_MAP_def RECORD_ATTRIBUTE_MAP_WLK_def
      RECORD_ATTRIBUTE_MAP_DOWNLOAD_def LOOP2_RECORD_ATTRIBUTE_MAP_def transforms_not_struct)

lemma wind_direction_special_not_struct:
  "wind_direction_special pairs r \<noteq> Inl StructError"
proof (induction pairs arbitrary: r)
  case Nil
  then show ?case by simp
next
  case (Cons p pairs)
  obtain k1 k2 where p: "p = (k1, k2)" by (cases p)
  have IH: "wind_direction_special pairs r1 \<noteq> Inl StructError" for r1 by (rule Cons.IH)
  show ?case unfolding p using IH by (simp split: option.splits pyval.splits)
qed

lemma from_degrees_not_struct: "from_degrees x \<noteq> Inl StructError"
  by (auto simp: from_degrees_def dict_get_def split: sum.splits option.splits if_splits)

lemma loop_wind_direction_special_not_struct:
  "loop_wind_direction_special pairs r \<noteq> Inl StructError"
proof (induction pairs arbitrary: r)
  case Nil
  then show ?case by simp
next
  case (Cons p pairs)
  obtain k1 k2 where p: "p = (k1, k2)" by (cases p)
  have IH: "loop_wind_direction_special pairs r1 \<noteq> Inl StructError" for r1 by (rule Cons.IH)
  show ?case unfolding p using IH from_degrees_not_struct
    by (auto split: option.splits pyval.splits sum.splits)
qed

lemma loop_rain_amount_special_not_struct:
  "loop_rain_amount_special c pairs r \<noteq> Inl StructError"
proof (induction pairs arbitrary: r)
  case Nil
  then show ?case by simp
next
  case (Cons p pairs)
  obtain k1 k2 where p: "p = (k1, k2)" by (cases p)
  have IH: "loop_rain_amount_special c pairs r1 \<noteq> Inl StructError" for r1 by (rule Cons.IH)
  show ?case unfolding p using IH by (simp split: option.splits pyval.splits)
qed

lemma small_not_struct:
  "raw_int v \<noteq> Inl StructError" "date_new y m d \<noteq> Inl StructError"
  "datetime_new y m d h mi \<noteq> Inl StructError" "datetime_add_minutes dt n \<noteq> Inl StructError"
  "RainCollectorTypeDatabase_call c \<noteq> Inl StructError"
  "convert_timestamp_to_datetime ts \<noteq> Inl StructError"
  "barometric_trend_special r \<noteq> Inl StructError"
  by (auto simp: raw_int_def date_new_def datetime_new_def datetime_add_minutes_def Let_def
      RainCollectorTypeDatabase_call_def convert_timestamp_to_datetime_def
      barometric_trend_special_def split: raw.splits prod.splits option.splits pyval.splits
      sum.splits)

lemma wlk_post_process_not_struct: "wlk_post_process arguments r y m d \<noteq> Inl StructError"
  using small_not_struct wind_direction_special_not_struct
  by (auto simp: wlk_post_process_def Let_def split: sum.splits option.splits pyval.splits)

lemma download_post_process_not_struct:
  "download_post_process arguments r mc \<noteq> Inl StructError"
  using small_not_struct wind_direction_special_not_struct
  by (auto simp: download_post_process_def Let_def split: sum.splits option.splits pyval.splits)

lemma post_process_arguments_not_struct: "post_process_arguments r \<noteq> Inl StructError"
  using small_not_struct loop_wind_direction_special_not_struct
    loop_rain_amount_special_not_struct
  by (auto simp: post_process_arguments_def Let_def split: sum.splits)

lemma DailySummary_long:
  assumes "DAILY_SUMMARY_LENGTH \<le> length file_handle"
  shows "fst (DailySummary_load_from_wlk file_handle y m d) \<noteq> Inl StructError"
proof -
  have "calcsize DAILY_SUMMARY_FORMAT \<le> length (take DAILY_SUMMARY_LENGTH file_handle)"
    using assms by (simp add: calcsize_DAILY_SUMMARY)
  then show ?thesis
    using verify_not_struct attribute_loop_not_struct [OF maps_not_struct(1)] small_not_struct
    by (auto simp: DailySummary_load_from_wlk_def file_read_def DailySummary_from_bytes_def
        struct_unpack_from_long split: sum.splits)
qed

lemma wlk_long:
  assumes "RECORD_LENGTH_WLK \<le> length file_handle"
  shows "fst (ArchiveIntervalRecord_load_from_wlk file_handle y m d) \<noteq> Inl StructError"
proof -
  have "calcsize RECORD_FORMAT_WLK \<le> length (take RECORD_LENGTH_WLK file_handle)"
    using assms by (simp add: calcsize_WLK)
  then show ?thesis
    using verify_not_struct attribute_loop_not_struct [OF maps_not_struct(2)]
      wlk_post_process_not_struct
    by (auto simp: ArchiveIntervalRecord_load_from_wlk_def file_read_def
        ArchiveIntervalRecord_wlk_from_bytes_def struct_unpack_from_long split: sum.splits)
qed

lemma download_long:
  assumes "RECORD_LENGTH_DOWNLOAD \<le> length response_handle"
  shows "fst (ArchiveIntervalRecord_load_from_download response_handle mc) \<noteq> Inl StructError"
proof -
  have "calcsize RECORD_FORMAT_DOWNLOAD \<le> length (take RECORD_LENGTH_DOWNLOAD response_handle)"
    using assms by (simp add: calcsize_DOWNLOAD)
  then show ?thesis
    using verify_not_struct attribute_loop_not_struct [OF maps_not_struct(3)]
      download_post_process_not_struct small_not_struct
    by (auto simp: ArchiveIntervalRecord_load_from_download_def file_read_def
        ArchiveIntervalRecord_download_from_bytes_def struct_unpack_from_long
        split: sum.splits if_splits)
qed

lemma loop2_long:
  assumes "RECORD_LENGTH \<le> length socket_file"
  shows "fst (load_loop_2_from_connection socket_file) \<noteq> Inl StructError"
proof -
  have "calcsize LOOP2_RECORD_FORMAT \<le> length (take RECORD_LENGTH socket_file)"
    using assms by (simp add: calcsize_LOOP2)
  then show ?thesis
    using verify_not_struct attribute_loop_not_struct [OF maps_not_struct(4)]
      post_process_arguments_not_struct
    by (auto simp: load_loop_2_from_connection_def get_loop_2_arguments_def file_read_def
        loop_2_attributes_def Let_def struct_unpack_from_long split: sum.splits)
qed



















lemma sample_fields:
  "sample_arguments ! 1 = RInt 1440" "sample_arguments ! 2 = RInt 123"
  "sample_arguments ! 3 = RInt 32767" "length sample_arguments = 42"
  "daily_summary_wanted 1" "daily_summary_wanted 2" "daily_summary_wanted 3"
  "DAILY_SUMMARY_ATTRIBUTE_MAP ! 1 = (''minutes'', STRAIGHT_NUMBER, None)"
  "DAILY_SUMMARY_ATTRIBUTE_MAP ! 2 = (''temperature_outside_high'', TENTHS, Some DASH_LARGE_NEGATIVE)"
  "DAILY_SUMMARY_ATTRIBUTE_MAP ! 3 = (''temperature_outside_low'', TENTHS, Some DASH_LARGE)"
  by (simp_all add: sample_arguments_def daily_summary_wanted_def
      DAILY_SUMMARY_VERIFICATION_MAP_def DAILY_SUMMARY_ATTRIBUTE_MAP_def)



lemma field_decoded_STRAIGHT_NUMBER:
  "field_decoded r (k, STRAIGHT_NUMBER, None) (RInt n) \<Longrightarrow> r k = Some (PyInt n)"
  by (simp add: field_decoded_def equals_sentinel_def STRAIGHT_NUMBER_def)


text \<open>
  Claim C1, as stated, fails for a stream that holds more bytes than the record: the
  decoder reads the fixed length from the front and returns a record.  Here the sample of
  176 bytes is followed by one more byte.
\<close>

theorem C1_longer_buffer_counterexample:
  "length (daily_summary_sample @ [0x00]) = 177 \<and> DAILY_SUMMARY_LENGTH = 176
   \<and> (\<exists>r. fst (DailySummary_load_from_wlk (daily_summary_sample @ [0x00]) 2020 1 1) = Inr r
          \<and> r ''minutes'' = Some (PyInt 1440))"
proof -
  let ?h = "daily_summary_sample @ [0x00]"
  have t: "take DAILY_SUMMARY_LENGTH ?h = daily_summary_sample"
    by (simp add: sample_length DAILY_SUMMARY_LENGTH_def)
  obtain r where r: "DailySummary_from_bytes daily_summary_sample 2020 1 1 = Inr r"
    using sample_decodes by blast
  then have l: "fst (DailySummary_load_from_wlk ?h 2020 1 1) = Inr r"
    unfolding DailySummary_load_from_wlk_def file_read_def t by simp
  have i: "1 < length sample_arguments" by (simp add: sample_arguments_def)
  have w: "daily_summary_wanted 1" by (rule sample_fields)
  have "field_decoded r (DAILY_SUMMARY_ATTRIBUTE_MAP ! 1) (sample_arguments ! 1)"
    using r sample_unpacked' i w by (rule DailySummary_field)
  then have "field_decoded r (''minutes'', STRAIGHT_NUMBER, None) (RInt 1440)"
    by (simp only: sample_fields)
  then have "r ''minutes'' = Some (PyInt 1440)"
    by (rule field_decoded_STRAIGHT_NUMBER)
  with l show ?thesis by (auto simp: sample_length DAILY_SUMMARY_LENGTH_def)
qed

text \<open>
  Claim C1, amended.  For each of the four record kinds, the decoder raises \<open>struct.error\<close>
  exactly when the stream holds fewer bytes than the fixed length of the record (176, 88, 52
  and 99 bytes); it does so before any field is decoded, so no record is returned.  A
  stream of any other length is decoded as its first bytes up to the fixed length are, and
  the rest of the stream is left unread.
\<close>

theorem C1_short_buffer_raises:
  "(\<forall>file_handle y m d.
      (fst (DailySummary_load_from_wlk file_handle y m d) = Inl StructError)
        = (length file_handle < DAILY_SUMMARY_LENGTH))
   \<and> (\<forall>file_handle y m d.
      (fst (ArchiveIntervalRecord_load_from_wlk file_handle y m d) = Inl StructError)
        = (length file_handle < RECORD_LENGTH_WLK))
   \<and> (\<forall>response_handle minutes_covered.
      (fst (ArchiveIntervalRecord_load_from_download response_handle minutes_covered)
         = Inl StructError)
        = (length response_handle < RECORD_LENGTH_DOWNLOAD))
   \<and> (\<forall>socket_file.
      (fst (load_loop_2_from_connection socket_file) = Inl StructError)
        = (length socket_file < RECORD_LENGTH))
   \<and> (\<forall>file_handle y m d.
      DailySummary_load_from_wlk file_handle y m d =
        (fst (DailySummary_load_from_wlk (take DAILY_SUMMARY_LENGTH file_handle) y m d),
         drop DAILY_SUMMARY_LENGTH file_handle))
   \<and> (\<forall>file_handle y m d.
      ArchiveIntervalRecord_load_from_wlk file_handle y m d =
        (fst (ArchiveIntervalRecord_load_from_wlk (take RECORD_LENGTH_WLK file_handle) y m d),
         drop RECORD_LENGTH_WLK file_handle))
   \<and> (\<forall>response_handle minutes_covered.
      ArchiveIntervalRecord_load_from_download response_handle minutes_covered =
        (fst (ArchiveIntervalRecord_load_from_download
                (take RECORD_LENGTH_DOWNLOAD response_handle) minutes_covered),
         drop RECORD_LENGTH_DOWNLOAD response_handle))
   \<and> (\<forall>socket_file.
      load_loop_2_from_connection socket_file =
        (fst (load_loop_2_from_connection (take RECORD_LENGTH socket_file)),
         drop RECORD_LENGTH socket_file))
   \<and> DAILY_SUMMARY_LENGTH = 176 \<and> RECORD_LENGTH_WLK = 88
   \<and> RECORD_LENGTH_DOWNLOAD = 52 \<and> RECORD_LENGTH = 99"
proof (intro conjI allI)
  show "DAILY_SUMMARY_LENGTH = 176" by (simp add: DAILY_SUMMARY_LENGTH_def)
  show "RECORD_LENGTH_WLK = 88" by (simp add: RECORD_LENGTH_WLK_def)
  show "RECORD_LENGTH_DOWNLOAD = 52" by (simp add: RECORD_LENGTH_DOWNLOAD_def)
  show "RECORD_LENGTH = 99" by (simp add: RECORD_LENGTH_def)
next
  fix file_handle y m d
  show "(fst (DailySummary_load_from_wlk file_handle y m d) = Inl StructError)
        = (length file_handle < DAILY_SUMMARY_LENGTH)"
    using DailySummary_short [of file_handle y m d] DailySummary_long [of file_handle y m d]
    by (cases "length file_handle < DAILY_SUMMARY_LENGTH") simp_all
  show "(fst (ArchiveIntervalRecord_load_from_wlk file_handle y m d) = Inl StructError)
        = (length file_handle < RECORD_LENGTH_WLK)"
    using wlk_short [of file_handle y m d] wlk_long [of file_handle y m d]
    by (cases "length file_handle < RECORD_LENGTH_WLK") simp_all
  show "DailySummary_load_from_wlk file_handle y m d =
        (fst (DailySummary_load_from_wlk (take DAILY_SUMMARY_LENGTH file_handle) y m d),
         drop DAILY_SUMMARY_LENGTH file_handle)"
    by (rule DailySummary_front)
  show "ArchiveIntervalRecord_load_from_wlk file_handle y m d =
        (fst (ArchiveIntervalRecord_load_from_wlk (take RECORD_LENGTH_WLK file_handle) y m d),
         drop RECORD_LENGTH_WLK file_handle)"
    by (rule wlk_front)
next
  fix response_handle minutes_covered
  show "(fst (ArchiveIntervalRecord_load_from_download response_handle minutes_covered)
         = Inl StructError)
        = (length response_handle < RECORD_LENGTH_DOWNLOAD)"
    using download_short [of response_handle minutes_covered]
      download_long [of response_handle minutes_covered]
    by (cases "length response_handle < RECORD_LENGTH_DOWNLOAD") simp_all
  show "ArchiveIntervalRecord_load_from_download response_handle minutes_covered =
        (fst (ArchiveIntervalRecord_load_from_download
                (take RECORD_LENGTH_DOWNLOAD response_handle) minutes_covered),
         drop RECORD_LENGTH_DOWNLOAD response_handle)"
    by (rule download_front)
next
  fix socket_file
  show "(fst (load_loop_2_from_connection socket_file) = Inl StructError)
        = (length socket_file < RECORD_LENGTH)"
    using loop2_short [of socket_file] loop2_long [of socket_file]
    by (cases "length socket_file < RECORD_LENGTH") simp_all
  show "load_loop_2_from_connection socket_file =
        (fst (load_loop_2_from_connection (take RECORD_LENGTH socket_file)),
         drop RECORD_LENGTH socket_file)"
    by (rule loop2_front)
qed

theorem C1_short_buffer_raises_witness:
  "length (take 100 daily_summary_sample) < DAILY_SUMMARY_LENGTH
   \<and> fst (DailySummary_load_from_wlk (take 100 daily_summary_sample) 2020 1 1) = Inl StructError
   \<and> length (take 50 daily_summary_sample) < RECORD_LENGTH_WLK
   \<and> fst (ArchiveIntervalRecord_load_from_wlk (take 50 daily_summary_sample) 2020 1 1)
       = Inl StructError
   \<and> length (take 50 daily_summary_sample) < RECORD_LENGTH_DOWNLOAD
   \<and> fst (ArchiveIntervalRecord_load_from_download (take 50 daily_summary_sample) (PyInt 5))
       = Inl StructError
   \<and> length (take 50 daily_summary_sample) < RECORD_LENGTH
   \<and> fst (load_loop_2_from_connection (take 50 daily_summary_sample)) = Inl StructError"
proof -
  have a: "length (take 100 daily_summary_sample) < DAILY_SUMMARY_LENGTH"
    by (simp add: sample_length DAILY_SUMMARY_LENGTH_def)
  have b: "length (take 50 daily_summary_sample) < RECORD_LENGTH_WLK"
    by (simp add: sample_length RECORD_LENGTH_WLK_def)
  have c: "length (take 50 daily_summary_sample) < RECORD_LENGTH_DOWNLOAD"
    by (simp add: sample_length RECORD_LENGTH_DOWNLOAD_def)
  have d: "length (take 50 daily_summary_sample) < RECORD_LENGTH"
    by (simp add: sample_length RECORD_LENGTH_def)
  note main = C1_short_buffer_raises
  have a': "fst (DailySummary_load_from_wlk (take 100 daily_summary_sample) 2020 1 1)
      = Inl StructError"
    by (rule main [THEN conjunct1, rule_format, THEN iffD2, OF a])
  have b': "fst (ArchiveIntervalRecord_load_from_wlk (take 50 daily_summary_sample) 2020 1 1)
       = Inl StructError"
    by (rule main [THEN conjunct2, THEN conjunct1, rule_format, THEN iffD2, OF b])
  have c': "fst (ArchiveIntervalRecord_load_from_download (take 50 daily_summary_sample) (PyInt 5))
       = Inl StructError"
    by (rule main [THEN conjunct2, THEN conjunct2, THEN conjunct1, rule_format, THEN iffD2,
        OF c])
  have d': "fst (load_loop_2_from_connection (take 50 daily_summary_sample)) = Inl StructError"
    by (rule main [THEN conjunct2, THEN conjunct2, THEN conjunct2, THEN conjunct1,
        rule_format, THEN iffD2, OF d])
  from a a' b b' c c' d d' show ?thesis by blast
qed

end
